theory Spec2Isabelle
  imports Complex_Main
begin

section \<open>Python values used by the relay scripts\<close>

text \<open>
  A Python \<^verbatim>\<open>str\<close> is a sequence of Unicode code points, so it is modelled as a list
  of naturals; a string that \<^verbatim>\<open>json.loads\<close> returns may hold U+0000 and lone surrogates.
  The literals of the scripts are ASCII apart from one emoji; \<open>ascii\<close> turns an Isabelle
  string literal into its code points.
\<close>

type_synonym pystr = "nat list"

definition ascii :: "string \<Rightarrow> pystr" where
  "ascii cs = map of_char cs"

text \<open>
  \<^verbatim>\<open>str.isspace\<close> for one code point, as CPython's Unicode database has it: U+0009..U+000D,
  U+001C..U+0020, U+0085, U+00A0, U+1680, U+2000..U+200A, U+2028, U+2029, U+202F, U+205F,
  U+3000. \<^verbatim>\<open>str.strip()\<close> without argument removes these from both ends.
\<close>

definition py_isspace :: "nat \<Rightarrow> bool" where
  "py_isspace c \<longleftrightarrow>
     (9 \<le> c \<and> c \<le> 13) \<or> (28 \<le> c \<and> c \<le> 32) \<or> c = 133 \<or> c = 160 \<or> c = 5760 \<or>
     (8192 \<le> c \<and> c \<le> 8202) \<or> c = 8232 \<or> c = 8233 \<or> c = 8239 \<or> c = 8287 \<or> c = 12288"

definition py_strip :: "pystr \<Rightarrow> pystr" where
  "py_strip s = rev (dropWhile py_isspace (rev (dropWhile py_isspace s)))"

definition py_startswith :: "pystr \<Rightarrow> pystr \<Rightarrow> bool" where
  "py_startswith s p \<longleftrightarrow> take (length p) s = p"

text \<open>\<^verbatim>\<open>s.split(sep)\<close> for a one-character separator: never empty, \<^verbatim>\<open>''.split(',') == ['']\<close>.\<close>

fun py_split :: "pystr \<Rightarrow> nat \<Rightarrow> pystr list" where
  "py_split [] sep = [Nil]"
| "py_split (c # cs) sep =
     (if c = sep then [] # py_split cs sep
      else (case py_split cs sep of
              [] \<Rightarrow> [c] # []
            | piece # pieces \<Rightarrow> (c # piece) # pieces))"

text \<open>\<^verbatim>\<open>str(n)\<close> for a non-negative integer and \<^verbatim>\<open>str(b)\<close> for a boolean, as f-strings format them.\<close>

fun py_str_nat :: "nat \<Rightarrow> pystr" where
  "py_str_nat n = (if n < 10 then [48 + n] else py_str_nat (n div 10) @ [48 + n mod 10])"

declare py_str_nat.simps [simp del]

definition py_str_bool :: "bool \<Rightarrow> pystr" where
  "py_str_bool b = (if b then ascii ''True'' else ascii ''False'')"

text \<open>An f-string formats a value that may be \<^verbatim>\<open>None\<close> (an unset environment variable) as \<^verbatim>\<open>None\<close>.\<close>

definition py_str_opt :: "pystr option \<Rightarrow> pystr" where
  "py_str_opt v = (case v of None \<Rightarrow> ascii ''None'' | Some s \<Rightarrow> s)"

text \<open>
  The values \<^verbatim>\<open>json.loads\<close> returns. A \<^verbatim>\<open>dict\<close> is an association list read with
  \<open>map_of\<close>; a float is stood for by a real (of a float only its truth value and its type
  name are ever used here).
\<close>

datatype json =
    JNull
  | JBool bool
  | JInt int
  | JFloat real
  | JString pystr
  | JArray "json list"
  | JObject "(pystr \<times> json) list"

datatype py_exn =
    AttributeError pystr pystr
  | CalledProcessError int pystr
  | ValueError
  | UnicodeEncodeError
  | UnicodeDecodeError

definition type_name :: "json \<Rightarrow> pystr" where
  "type_name j =
     (case j of
        JNull \<Rightarrow> ascii ''NoneType''
      | JBool _ \<Rightarrow> ascii ''bool''
      | JInt _ \<Rightarrow> ascii ''int''
      | JFloat _ \<Rightarrow> ascii ''float''
      | JString _ \<Rightarrow> ascii ''str''
      | JArray _ \<Rightarrow> ascii ''list''
      | JObject _ \<Rightarrow> ascii ''dict'')"

text \<open>Truth value of an object in \<^verbatim>\<open>if body:\<close>.\<close>

definition py_truthy :: "json \<Rightarrow> bool" where
  "py_truthy j =
     (case j of
        JNull \<Rightarrow> False
      | JBool b \<Rightarrow> b
      | JInt i \<Rightarrow> i \<noteq> 0
      | JFloat r \<Rightarrow> r \<noteq> 0
      | JString s \<Rightarrow> s \<noteq> []
      | JArray xs \<Rightarrow> xs \<noteq> []
      | JObject kvs \<Rightarrow> kvs \<noteq> [])"

text \<open>
  \<^verbatim>\<open>obj.get(key, default)\<close>: only a \<^verbatim>\<open>dict\<close> has the method; on any other JSON value
  the attribute lookup raises \<^verbatim>\<open>AttributeError\<close>.
\<close>

definition py_get :: "json \<Rightarrow> pystr \<Rightarrow> json \<Rightarrow> py_exn + json" where
  "py_get obj key dflt =
     (case obj of
        JObject kvs \<Rightarrow> (case map_of kvs key of None \<Rightarrow> Inr dflt | Some v \<Rightarrow> Inr v)
      | _ \<Rightarrow> Inl (AttributeError (type_name obj) (ascii ''get'')))"

text \<open>\<^verbatim>\<open>x in xs\<close> for a JSON value and a list of strings: only an equal string is a member.\<close>

definition py_in :: "json \<Rightarrow> pystr list \<Rightarrow> bool" where
  "py_in x xs \<longleftrightarrow> (case x of JString s \<Rightarrow> s \<in> set xs | _ \<Rightarrow> False)"

section \<open>The host: processes, output, clock\<close>

text \<open>
  Every effect of the scripts is an event of a trace, in program order:
  \<^item> \<open>Shell cmd\<close>: a child process started by \<^verbatim>\<open>subprocess.run(cmd, shell=True, ...)\<close>;
  \<^item> \<open>Print s\<close>: \<^verbatim>\<open>print(s)\<close>; \<open>PrintExn s e\<close>: \<^verbatim>\<open>print(f"{s}{e}")\<close> for an exception \<open>e\<close>;
  \<^item> \<open>Log s\<close>: \<^verbatim>\<open>print(f"{timestamp()} {s}")\<close>; \<open>LogExn s e\<close>: the same with \<open>e\<close> formatted
    after \<open>s\<close>;
  \<^item> \<open>FileLog path s\<close>: the line \<^verbatim>\<open>f"{timestamp()} {s}\n"\<close> appended to the file \<open>path\<close>;
  \<^item> \<open>Sleep n\<close>: \<^verbatim>\<open>time.sleep(n)\<close>.
  The wall-clock text of \<^verbatim>\<open>timestamp()\<close> is not part of the model.
\<close>

datatype event =
    Shell pystr
  | Print pystr
  | PrintExn pystr py_exn
  | Log pystr
  | LogExn pystr py_exn
  | FileLog pystr pystr
  | Sleep nat

text \<open>
  With \<^verbatim>\<open>shell=True\<close> the command line is handed to \<^verbatim>\<open>/bin/sh -c\<close> as one argument,
  encoded with \<^verbatim>\<open>os.fsencode\<close> (UTF-8 with \<^verbatim>\<open>surrogateescape\<close>). A surrogate code point
  U+D800..U+DFFF outside U+DC80..U+DCFF cannot be encoded: \<^verbatim>\<open>UnicodeEncodeError\<close>. An
  encoded argument that holds a zero byte is refused: \<^verbatim>\<open>ValueError\<close>. Either is raised
  before any process is started, the encoding error first.
\<close>

definition unencodable :: "nat \<Rightarrow> bool" where
  "unencodable c \<longleftrightarrow> 55296 \<le> c \<and> c \<le> 57343 \<and> (c < 56448 \<or> 56575 < c)"

definition spawn_error :: "pystr \<Rightarrow> py_exn option" where
  "spawn_error cmd =
     (if filter unencodable cmd \<noteq> [] then Some UnicodeEncodeError
      else if 0 \<in> set cmd then Some ValueError
      else None)"

definition has_surrogate :: "pystr \<Rightarrow> bool" where
  "has_surrogate s \<longleftrightarrow> filter (\<lambda>c. 55296 \<le> c \<and> c \<le> 57343) s \<noteq> []"

text \<open>
  The values of \<^verbatim>\<open>os.environ\<close> are strings the operating system accepted: setting a
  variable encodes the value the same way and fails on the same code points, so a
  value that is there can always be put back on a command line.
\<close>

typedef envstr = "{s :: pystr. spawn_error s = None}"
  by (rule exI [of _ "[]"]) (simp add: spawn_error_def)

text \<open>
  What a child process leaves behind: its exit status and what it wrote to its standard
  output, as decoded text. \<open>undecodable\<close> says that the bytes it wrote to standard output
  or standard error are not text in the locale's encoding; \<open>stdout\<close> is then not read.
\<close>

record completed =
  returncode :: int
  stdout :: pystr
  undecodable :: bool

text \<open>
  The host the scripts run on: the process environment (\<^verbatim>\<open>os.environ\<close> after
  \<^verbatim>\<open>load_dotenv\<close>), what the \<open>n\<close>-th child process does when it runs command line
  \<open>cmd\<close>, \<^verbatim>\<open>json.loads\<close> of the standard library (\<open>None\<close> is \<^verbatim>\<open>JSONDecodeError\<close>), and
  whether \<^verbatim>\<open>sys.stdout\<close> refuses surrogate code points (error handler \<^verbatim>\<open>strict\<close>, the
  default in a UTF-8 locale) or writes them back as bytes (\<^verbatim>\<open>surrogateescape\<close>, the C
  locale).
\<close>

record env =
  environment :: "pystr \<Rightarrow> envstr option"
  shell :: "pystr \<Rightarrow> nat \<Rightarrow> completed"
  json_loads :: "pystr \<Rightarrow> json option"
  stdout_strict :: bool

text \<open>\<^verbatim>\<open>os.getenv(key)\<close>, that is \<^verbatim>\<open>os.environ.get(key)\<close>.\<close>

definition environ :: "env \<Rightarrow> pystr \<Rightarrow> pystr option" where
  "environ e key = map_option Rep_envstr (environment e key)"

record world =
  trace :: "event list"
  ncalls :: nat

definition emit :: "event \<Rightarrow> world \<Rightarrow> world" where
  "emit ev w = w\<lparr>trace := trace w @ [ev]\<rparr>"

text \<open>
  \<^verbatim>\<open>subprocess.run(cmd, shell=True)\<close>: the exception of a command line that cannot be
  encoded, or the finished child process. The world comes back either way.
\<close>

definition subprocess_run :: "env \<Rightarrow> pystr \<Rightarrow> world \<Rightarrow> (py_exn + completed) \<times> world" where
  "subprocess_run e cmd w =
     (case spawn_error cmd of
        Some x \<Rightarrow> (Inl x, w)
      | None \<Rightarrow>
          (Inr (shell e cmd (ncalls w)),
           w\<lparr>trace := trace w @ [Shell cmd], ncalls := Suc (ncalls w)\<rparr>))"

text \<open>
  \<^verbatim>\<open>subprocess.run(cmd, shell=True, capture_output=True, text=True)\<close>: after the child
  has finished its output is decoded, and output that is not text raises
  \<^verbatim>\<open>UnicodeDecodeError\<close>, whatever the exit status.
\<close>

definition subprocess_run_text ::
  "env \<Rightarrow> pystr \<Rightarrow> world \<Rightarrow> (py_exn + completed) \<times> world" where
  "subprocess_run_text e cmd w =
     (case subprocess_run e cmd w of
        (Inl x, w1) \<Rightarrow> (Inl x, w1)
      | (Inr result, w1) \<Rightarrow>
          if undecodable result then (Inl UnicodeDecodeError, w1) else (Inr result, w1))"

text \<open>A call used as a statement: the returned value is dropped, an exception is kept.\<close>

definition statement :: "(py_exn + 'a) \<times> world \<Rightarrow> py_exn option \<times> world" where
  "statement r = (case r of (Inl x, w) \<Rightarrow> (Some x, w) | (Inr _, w) \<Rightarrow> (None, w))"

definition SIGNAL_CLI_USER :: "env \<Rightarrow> pystr option" where
  "SIGNAL_CLI_USER e = environ e (ascii ''SIGNAL_CLI_USER'')"

definition SIGNAL_GROUP_ID :: "env \<Rightarrow> pystr option" where
  "SIGNAL_GROUP_ID e = environ e (ascii ''SIGNAL_GROUP_ID'')"

definition SIGNAL_CLI_PATH :: pystr where
  "SIGNAL_CLI_PATH = ascii ''/usr/bin/signal-cli''"

text \<open>
  The command line both scripts build to send a text to the group; code point 34 is the
  double quote around the message. The message is pasted in as it is.
\<close>

definition send_cmd :: "env \<Rightarrow> pystr \<Rightarrow> pystr" where
  "send_cmd e message =
     SIGNAL_CLI_PATH @ ascii '' -u '' @ py_str_opt (SIGNAL_CLI_USER e) @
     ascii '' send --message '' @ [34] @ message @ [34] @
     ascii '' --receiver-group '' @ py_str_opt (SIGNAL_GROUP_ID e)"


section \<open>signal_listener.py\<close>

text \<open>\<^verbatim>\<open>AUTHORIZED_SENDERS = os.getenv('AUTHORIZED_SENDERS', '').split(',')\<close>\<close>

definition AUTHORIZED_SENDERS :: "env \<Rightarrow> pystr list" where
  "AUTHORIZED_SENDERS e =
     py_split (case environ e (ascii ''AUTHORIZED_SENDERS'') of None \<Rightarrow> [] | Some v \<Rightarrow> v) 44"

definition COMMAND_PREFIX :: pystr where
  "COMMAND_PREFIX = ascii ''!''"

definition ALLOWED_COMMANDS :: "pystr list" where
  "ALLOWED_COMMANDS =
     [ascii ''foundry status'', ascii ''foundry restart'', ascii ''foundry health'',
      ascii ''foundry backup'', ascii ''foundry uptime'', ascii ''foundry space'',
      ascii ''foundry reboot'', ascii ''foundry help'']"

text \<open>
  \<^verbatim>\<open>send_signal_message\<close>: the send runs with \<^verbatim>\<open>check=True\<close>; a non-zero exit status raises
  \<^verbatim>\<open>CalledProcessError\<close>, which is caught and printed. The \<^verbatim>\<open>except\<close> clause catches
  nothing else: the exception of a command line that cannot be encoded leaves the
  function. The printed text of a \<^verbatim>\<open>CalledProcessError\<close> holds the command line, so the
  \<^verbatim>\<open>print\<close> in the handler raises in its turn when the command line holds a surrogate
  (one that could be encoded for the child process) and standard output refuses them.
\<close>

definition send_signal_message :: "env \<Rightarrow> pystr \<Rightarrow> world \<Rightarrow> py_exn option \<times> world" where
  "send_signal_message e message w =
     (case subprocess_run e (send_cmd e message) w of
        (Inl x, w1) \<Rightarrow> (Some x, w1)
      | (Inr result, w1) \<Rightarrow>
          if returncode result \<noteq> 0
          then (if stdout_strict e \<and> has_surrogate (send_cmd e message)
                then (Some UnicodeEncodeError, w1)
                else (None, emit (PrintExn (ascii ''Failed to send Signal message. Error: '')
                             (CalledProcessError (returncode result) (send_cmd e message))) w1))
          else (None, w1))"

text \<open>
  \<^verbatim>\<open>parse_command\<close>. The caller passes whatever JSON value the message field holds; only
  a string has \<^verbatim>\<open>startswith\<close>.
\<close>

definition parse_command :: "json \<Rightarrow> py_exn + pystr option" where
  "parse_command body =
     (case body of
        JString s \<Rightarrow>
          if \<not> py_startswith s COMMAND_PREFIX then Inr None
          else Inr (Some (py_strip (drop (length COMMAND_PREFIX) s)))
      | _ \<Rightarrow> Inl (AttributeError (type_name body) (ascii ''startswith'')))"

definition denied_message :: pystr where
  "denied_message = ascii ''Unauthorized sender. Access denied.''"

text \<open>The f-string of the reply to an unknown command; code point 39 is the apostrophe.\<close>

definition invalid_message :: "pystr \<Rightarrow> pystr" where
  "invalid_message command =
     ascii ''Invalid command '' @ [39] @ command @ [39] @ ascii ''. Send '' @ [39] @
     ascii ''!foundry help'' @ [39] @ ascii '' for options.''"

text \<open>The literal \<^verbatim>\<open>help_message\<close>; code point 10 is the line feed.\<close>

definition help_message :: pystr where
  "help_message =
     ascii ''Available commands:'' @ [10] @
     ascii ''!foundry status'' @ [10] @
     ascii ''!foundry restart'' @ [10] @
     ascii ''!foundry health'' @ [10] @
     ascii ''!foundry backup'' @ [10] @
     ascii ''!foundry uptime'' @ [10] @
     ascii ''!foundry space'' @ [10] @
     ascii ''!foundry reboot'' @ [10] @
     ascii ''!foundry help''"

definition handle_command :: "env \<Rightarrow> pystr \<Rightarrow> json \<Rightarrow> world \<Rightarrow> py_exn option \<times> world" where
  "handle_command e command sender w =
     (if \<not> py_in sender (AUTHORIZED_SENDERS e) then
        send_signal_message e denied_message w
      else if command \<notin> set ALLOWED_COMMANDS then
        send_signal_message e (invalid_message command) w
      else if command = ascii ''foundry status'' then
        statement (subprocess_run e (ascii ''./foundry.sh status'') w)
      else if command = ascii ''foundry restart'' then
        statement (subprocess_run e (ascii ''./foundry.sh restart'') w)
      else if command = ascii ''foundry health'' then
        statement (subprocess_run e (ascii ''python3 ../python/health_check.py'') w)
      else if command = ascii ''foundry backup'' then
        statement (subprocess_run e (ascii ''./foundry.sh backup'') w)
      else if command = ascii ''foundry uptime'' then
        statement (subprocess_run e (ascii ''uptime'') w)
      else if command = ascii ''foundry space'' then
        statement (subprocess_run e (ascii ''df -h /backups'') w)
      else if command = ascii ''foundry reboot'' then
        statement (subprocess_run e (ascii ''sudo reboot'') w)
      else if command = ascii ''foundry help'' then
        send_signal_message e help_message w
      else (None, w))"

text \<open>
  The body of the \<^verbatim>\<open>for\<close> loop of \<^verbatim>\<open>listen_for_signal_messages\<close>, in two parts. First
  the guarded dispatch
  \<^verbatim>\<open>if body: command = parse_command(body); if command: handle_command(command, source)\<close>:
  \<^verbatim>\<open>if command:\<close> is false for \<^verbatim>\<open>None\<close> and for the empty string. The first component
  of the result is the exception that leaves the statements, if any.
\<close>

definition dispatch_body :: "env \<Rightarrow> json \<Rightarrow> json \<Rightarrow> world \<Rightarrow> py_exn option \<times> world" where
  "dispatch_body e source body w =
     (if py_truthy body then
        (case parse_command body of
           Inl x \<Rightarrow> (Some x, w)
         | Inr None \<Rightarrow> (None, w)
         | Inr (Some command) \<Rightarrow>
             if command \<noteq> [] then handle_command e command source w else (None, w))
      else (None, w))"

text \<open>
  Then one raw line: \<^verbatim>\<open>json.loads\<close>, the three \<^verbatim>\<open>get\<close> lookups with their defaults, the
  dispatch; \<^verbatim>\<open>JSONDecodeError\<close> is caught and logged here, any other exception leaves the
  loop.
\<close>

definition process_message :: "env \<Rightarrow> pystr \<Rightarrow> world \<Rightarrow> py_exn option \<times> world" where
  "process_message e raw_message w =
     (case json_loads e raw_message of
        None \<Rightarrow> (None, emit (Log (ascii ''Failed to decode message: '' @ raw_message)) w)
      | Some data \<Rightarrow>
          (case py_get data (ascii ''envelope'') (JObject []) of
             Inl x \<Rightarrow> (Some x, w)
           | Inr envelope \<Rightarrow>
               (case py_get envelope (ascii ''source'') (JString []) of
                  Inl x \<Rightarrow> (Some x, w)
                | Inr source \<Rightarrow>
                    (case py_get envelope (ascii ''dataMessage'') (JObject []) of
                       Inl x \<Rightarrow> (Some x, w)
                     | Inr dm \<Rightarrow>
                         (case py_get dm (ascii ''message'') (JString []) of
                            Inl x \<Rightarrow> (Some x, w)
                          | Inr body \<Rightarrow> dispatch_body e source body w)))))"

text \<open>The \<^verbatim>\<open>for\<close> loop: an exception other than a decode failure ends it.\<close>

fun process_messages :: "env \<Rightarrow> pystr list \<Rightarrow> world \<Rightarrow> py_exn option \<times> world" where
  "process_messages e [] w = (None, w)"
| "process_messages e (raw_message # rest) w =
     (case process_message e raw_message w of
        (Some x, w') \<Rightarrow> (Some x, w')
      | (None, w') \<Rightarrow> process_messages e rest w')"

definition receive_cmd :: "env \<Rightarrow> pystr" where
  "receive_cmd e =
     SIGNAL_CLI_PATH @ ascii '' -u '' @ py_str_opt (SIGNAL_CLI_USER e) @ ascii '' receive -t''"

text \<open>
  One iteration of \<^verbatim>\<open>while True\<close>: receive, split the output into lines, process them,
  log an exception that escaped (from the receive or from a line), sleep 5.
\<close>

definition listen_cycle :: "env \<Rightarrow> world \<Rightarrow> world" where
  "listen_cycle e w =
     (let (exn, w2) =
            (case subprocess_run_text e (receive_cmd e) w of
               (Inl x, w1) \<Rightarrow> (Some x, w1)
             | (Inr result, w1) \<Rightarrow>
                 if stdout result \<noteq> []
                 then process_messages e (py_split (py_strip (stdout result)) 10) w1
                 else (None, w1));
          w3 = (case exn of
                  None \<Rightarrow> w2
                | Some x \<Rightarrow> emit (LogExn (ascii ''Error receiving messages: '') x) w2)
      in emit (Sleep 5) w3)"

text \<open>The loop never returns; \<open>n\<close> of its iterations:\<close>

fun listen_for_signal_messages :: "env \<Rightarrow> nat \<Rightarrow> world \<Rightarrow> world" where
  "listen_for_signal_messages e 0 w = w"
| "listen_for_signal_messages e (Suc n) w = listen_for_signal_messages e n (listen_cycle e w)"

section \<open>health_check.py\<close>

definition LOG_FILE :: pystr where
  "LOG_FILE = ascii ''../logs/health_check.log''"

text \<open>\<^verbatim>\<open>log(message)\<close>: one line appended to the log file, the same line printed.\<close>

definition log_message :: "pystr \<Rightarrow> world \<Rightarrow> world" where
  "log_message message w = emit (Log message) (emit (FileLog LOG_FILE message) w)"

text \<open>
  \<^verbatim>\<open>send_signal_alert\<close>: like \<^verbatim>\<open>send_signal_message\<close>, with the outcome written to the
  log either way.
\<close>

definition send_signal_alert :: "env \<Rightarrow> pystr \<Rightarrow> world \<Rightarrow> py_exn option \<times> world" where
  "send_signal_alert e message w =
     (case subprocess_run e (send_cmd e message) w of
        (Inl x, w1) \<Rightarrow> (Some x, w1)
      | (Inr result, w1) \<Rightarrow>
          if returncode result \<noteq> 0
          then (None, log_message (ascii ''Failed to send Signal alert.'') w1)
          else (None, log_message (ascii ''Signal alert sent successfully.'') w1))"

definition podman_cmd :: pystr where
  "podman_cmd =
     ascii ''podman ps --filter '' @ [39] @ ascii ''name=foundryvtt'' @ [39] @
     ascii '' --filter '' @ [39] @ ascii ''status=running'' @ [39] @ ascii '' -q''"

definition curl_cmd :: "nat \<Rightarrow> pystr" where
  "curl_cmd port = ascii ''curl --connect-timeout 5 -s http://localhost:'' @ py_str_nat port"

text \<open>
  \<^verbatim>\<open>return bool(result.stdout.strip())\<close>: the exit status is not read. The output is
  captured as text, so output that does not decode raises.
\<close>

definition check_foundry_container :: "env \<Rightarrow> world \<Rightarrow> (py_exn + bool) \<times> world" where
  "check_foundry_container e w =
     (case subprocess_run_text e podman_cmd w of
        (Inl x, w1) \<Rightarrow> (Inl x, w1)
      | (Inr result, w1) \<Rightarrow> (Inr (py_strip (stdout result) \<noteq> []), w1))"

text \<open>
  \<^verbatim>\<open>return result.returncode == 0\<close>: the decoded output is not looked at, but it is
  captured as text all the same, so output that does not decode raises.
\<close>

definition check_web_server :: "env \<Rightarrow> nat \<Rightarrow> world \<Rightarrow> (py_exn + bool) \<times> world" where
  "check_web_server e port w =
     (case subprocess_run_text e (curl_cmd port) w of
        (Inl x, w1) \<Rightarrow> (Inl x, w1)
      | (Inr result, w1) \<Rightarrow> (Inr (returncode result = 0), w1))"

text \<open>The alert text starts with the emoji U+1F6A8, code point 128680.\<close>

definition alert_message :: pystr where
  "alert_message =
     [128680] @
     ascii '' FoundryVTT Health Check FAILED after retries! Immediate attention needed!''"

definition attempt_message :: "nat \<Rightarrow> bool \<Rightarrow> bool \<Rightarrow> pystr" where
  "attempt_message attempt container_ok web_ok =
     ascii ''Attempt '' @ py_str_nat attempt @ ascii '': Foundry container healthy: '' @
     py_str_bool container_ok @ ascii '', Web server healthy: '' @ py_str_bool web_ok"

text \<open>
  The \<^verbatim>\<open>for attempt in range(1, retries + 1)\<close> loop over the remaining attempts; when the
  range is used up the statements after the loop run. Both checks run in every round
  (they are evaluated before the \<^verbatim>\<open>and\<close>), and the sleep follows every failed round.
  Nothing in the function catches an exception: one raised by a check or by the alert
  ends the run (\<open>Inl\<close>).
\<close>

fun health_loop :: "env \<Rightarrow> nat list \<Rightarrow> world \<Rightarrow> (py_exn + bool) \<times> world" where
  "health_loop e [] w =
     (case send_signal_alert e alert_message w of
        (Some x, w') \<Rightarrow> (Inl x, w')
      | (None, w') \<Rightarrow> (Inr False, w'))"
| "health_loop e (attempt # rest) w =
     (let w1 = log_message (ascii ''Health check attempt '' @ py_str_nat attempt @ ascii ''...'') w
      in case check_foundry_container e w1 of
           (Inl x, w2) \<Rightarrow> (Inl x, w2)
         | (Inr container_ok, w2) \<Rightarrow>
             (case check_web_server e 29000 w2 of
                (Inl x, w3) \<Rightarrow> (Inl x, w3)
              | (Inr web_ok, w3) \<Rightarrow>
                  if container_ok \<and> web_ok
                  then (Inr True,
                        log_message (ascii ''FoundryVTT container and web server are healthy.'') w3)
                  else health_loop e rest
                         (emit (Sleep 5)
                            (log_message (attempt_message attempt container_ok web_ok) w3))))"

definition health_check :: "env \<Rightarrow> world \<Rightarrow> (py_exn + bool) \<times> world" where
  "health_check e w = (let retries = 3 in health_loop e [1..<retries + 1] w)"

section \<open>Reading a trace\<close>

text \<open>The command lines run, in order.\<close>

fun shells :: "event list \<Rightarrow> pystr list" where
  "shells [] = []"
| "shells (Shell cmd # evs) = cmd # shells evs"
| "shells (_ # evs) = shells evs"

text \<open>A probe round is one run of the container query followed by one run of the web probe.\<close>

definition probe_rounds :: "event list \<Rightarrow> nat" where
  "probe_rounds evs = length (filter (\<lambda>cmd. cmd = podman_cmd) (shells evs))"

definition w0 :: world where
  "w0 = \<lparr>trace = [], ncalls = 0\<rparr>"

text \<open>What is run and slept, in order, without the log output.\<close>

fun effects :: "event list \<Rightarrow> event list" where
  "effects [] = []"
| "effects (Shell cmd # evs) = Shell cmd # effects evs"
| "effects (Sleep n # evs) = Sleep n # effects evs"
| "effects (_ # evs) = effects evs"

text \<open>The timestamped lines printed, in order.\<close>

fun log_output :: "event list \<Rightarrow> event list" where
  "log_output [] = []"
| "log_output (Log s # evs) = Log s # log_output evs"
| "log_output (LogExn s x # evs) = LogExn s x # log_output evs"
| "log_output (_ # evs) = log_output evs"

text \<open>
  The seven commands of \<^verbatim>\<open>handle_command\<close> that run a local command line, with that
  command line, read off its \<^verbatim>\<open>if\<close>/\<^verbatim>\<open>elif\<close> chain (the eighth, help, sends a message).
\<close>

definition bound_action :: "(pystr \<times> pystr) list" where
  "bound_action =
     [(ascii ''foundry status'', ascii ''./foundry.sh status''),
      (ascii ''foundry restart'', ascii ''./foundry.sh restart''),
      (ascii ''foundry health'', ascii ''python3 ../python/health_check.py''),
      (ascii ''foundry backup'', ascii ''./foundry.sh backup''),
      (ascii ''foundry uptime'', ascii ''uptime''),
      (ascii ''foundry space'', ascii ''df -h /backups''),
      (ascii ''foundry reboot'', ascii ''sudo reboot'')]"

section \<open>Example hosts\<close>

text \<open>
  A configured host: two authorized senders, every child process exits with status 0 and
  prints nothing, no line decodes.
\<close>

definition example_environment :: "pystr \<Rightarrow> envstr option" where
  "example_environment k =
     (if k = ascii ''AUTHORIZED_SENDERS'' then Some (Abs_envstr (ascii ''+15550001,+15550002''))
      else if k = ascii ''SIGNAL_CLI_USER'' then Some (Abs_envstr (ascii ''+15550000''))
      else if k = ascii ''SIGNAL_GROUP_ID'' then Some (Abs_envstr (ascii ''group1''))
      else None)"

definition quiet_shell :: "pystr \<Rightarrow> nat \<Rightarrow> completed" where
  "quiet_shell cmd n = \<lparr>returncode = 0, stdout = [], undecodable = False\<rparr>"

definition example_host :: env where
  "example_host =
     \<lparr>environment = example_environment, shell = quiet_shell, json_loads = (\<lambda>raw. None),
      stdout_strict = True\<rparr>"

text \<open>
  A host without \<^verbatim>\<open>AUTHORIZED_SENDERS\<close>. The one line it decodes is an envelope with a
  message and no source field.
\<close>

definition anonymous_line :: pystr where
  "anonymous_line =
     ascii ''{'' @ [34] @ ascii ''envelope'' @ [34] @ ascii '': {'' @ [34] @
     ascii ''dataMessage'' @ [34] @ ascii '': {'' @ [34] @ ascii ''message'' @ [34] @
     ascii '': '' @ [34] @ ascii ''!foundry uptime'' @ [34] @ ascii ''}}}''"

definition anonymous_envelope :: json where
  "anonymous_envelope =
     JObject [(ascii ''envelope'',
       JObject [(ascii ''dataMessage'',
         JObject [(ascii ''message'', JString (ascii ''!foundry uptime''))])])]"

definition unconfigured_host :: env where
  "unconfigured_host =
     \<lparr>environment = (\<lambda>k. None), shell = quiet_shell,
      json_loads = (\<lambda>raw. if raw = anonymous_line then Some anonymous_envelope else None),
      stdout_strict = True\<rparr>"

text \<open>
  A host whose container is down: the container query prints nothing, the web probe
  exits with status 7 (connection refused), every other command succeeds silently.
\<close>

definition down_host :: env where
  "down_host =
     \<lparr>environment = example_environment,
      shell = (\<lambda>cmd n.
        if cmd = curl_cmd 29000 then \<lparr>returncode = 7, stdout = [], undecodable = False\<rparr>
        else \<lparr>returncode = 0, stdout = [], undecodable = False\<rparr>),
      json_loads = (\<lambda>raw. None), stdout_strict = True\<rparr>"

text \<open>
  A host that comes up after the first round: from the third child process on, the
  container query prints a container id and the web probe exits with status 0.
\<close>

definition recovering_host :: env where
  "recovering_host =
     \<lparr>environment = example_environment,
      shell = (\<lambda>cmd n.
        if cmd = podman_cmd then
          \<lparr>returncode = 0, stdout = (if n < 2 then [] else ascii ''3f2a9c1d0b7e'' @ [10]),
           undecodable = False\<rparr>
        else if cmd = curl_cmd 29000 then
          \<lparr>returncode = (if n < 2 then 7 else 0), stdout = [], undecodable = False\<rparr>
        else \<lparr>returncode = 0, stdout = [], undecodable = False\<rparr>),
      json_loads = (\<lambda>raw. None), stdout_strict = True\<rparr>"

text \<open>A host without the two programs: the shell reports status 127 and prints nothing.\<close>

definition bare_host :: env where
  "bare_host =
     \<lparr>environment = example_environment,
      shell = (\<lambda>cmd n. \<lparr>returncode = 127, stdout = [], undecodable = False\<rparr>),
      json_loads = (\<lambda>raw. None), stdout_strict = True\<rparr>"

text \<open>
  A host whose web transfer breaks off after bytes that are not text (status 18), and
  whose container query lists an id and then fails (status 125).
\<close>

definition broken_host :: env where
  "broken_host =
     \<lparr>environment = example_environment,
      shell = (\<lambda>cmd n.
        if cmd = podman_cmd then
          \<lparr>returncode = 125, stdout = ascii ''3f2a9c1d0b7e'' @ [10], undecodable = False\<rparr>
        else \<lparr>returncode = 18, stdout = [], undecodable = True\<rparr>),
      json_loads = (\<lambda>raw. None), stdout_strict = True\<rparr>"

text \<open>
  Three hosts for the poller. Their first child process, the receive, prints a batch of
  lines; the lines that decode are a command from an authorized sender and a receipt
  whose \<^verbatim>\<open>dataMessage\<close> is \<^verbatim>\<open>null\<close>.
\<close>

definition command_line :: pystr where
  "command_line =
     ascii ''{'' @ [34] @ ascii ''envelope'' @ [34] @ ascii '': {'' @ [34] @
     ascii ''source'' @ [34] @ ascii '': '' @ [34] @ ascii ''+15550001'' @ [34] @ ascii '', '' @
     [34] @ ascii ''dataMessage'' @ [34] @ ascii '': {'' @ [34] @ ascii ''message'' @ [34] @
     ascii '': '' @ [34] @ ascii ''!foundry uptime'' @ [34] @ ascii ''}}}''"

definition command_envelope :: json where
  "command_envelope =
     JObject [(ascii ''envelope'',
       JObject [(ascii ''source'', JString (ascii ''+15550001'')),
                (ascii ''dataMessage'',
                 JObject [(ascii ''message'', JString (ascii ''!foundry uptime''))])])]"

definition receipt_line :: pystr where
  "receipt_line =
     ascii ''{'' @ [34] @ ascii ''envelope'' @ [34] @ ascii '': {'' @ [34] @
     ascii ''source'' @ [34] @ ascii '': '' @ [34] @ ascii ''+15550001'' @ [34] @ ascii '', '' @
     [34] @ ascii ''dataMessage'' @ [34] @ ascii '': null}}''"

definition receipt_envelope :: json where
  "receipt_envelope =
     JObject [(ascii ''envelope'',
       JObject [(ascii ''source'', JString (ascii ''+15550001'')),
                (ascii ''dataMessage'', JNull)])]"

definition example_loads :: "pystr \<Rightarrow> json option" where
  "example_loads raw =
     (if raw = command_line then Some command_envelope
      else if raw = receipt_line then Some receipt_envelope
      else None)"

definition receiving :: "pystr \<Rightarrow> env" where
  "receiving out =
     \<lparr>environment = example_environment,
      shell = (\<lambda>cmd n.
        if n = 0 then \<lparr>returncode = 0, stdout = out, undecodable = False\<rparr>
        else \<lparr>returncode = 0, stdout = [], undecodable = False\<rparr>),
      json_loads = example_loads, stdout_strict = True\<rparr>"

definition relay_host :: env where
  "relay_host = receiving (command_line @ [10])"

definition receipt_host :: env where
  "receipt_host = receiving (receipt_line @ [10] @ ascii ''{bad'' @ [10])"

definition batch_host :: env where
  "batch_host =
     receiving (ascii ''{bad'' @ [10] @ command_line @ [10] @ ascii ''not json'' @ [10])"

section \<open>Facts about command lines, traces and the dispatcher\<close>

lemma spawn_error_append_None:
  "spawn_error (xs @ ys) = None \<longleftrightarrow> spawn_error xs = None \<and> spawn_error ys = None"
  by (auto simp add: spawn_error_def split: if_splits)

lemma spawn_error_between:
  "spawn_error pre = None \<Longrightarrow> spawn_error post = None \<Longrightarrow>
   spawn_error (pre @ m @ post) = spawn_error m"
  by (simp add: spawn_error_def split: if_splits)

lemma spawn_error_environ: "spawn_error (py_str_opt (environ e key)) = None"
proof (cases "environment e key")
  case None
  then show ?thesis
    by (simp add: environ_def py_str_opt_def) (simp add: spawn_error_def unencodable_def ascii_def)
next
  case (Some v)
  then show ?thesis
    using Rep_envstr [of v] by (simp add: environ_def py_str_opt_def)
qed

lemma spawn_error_send_cmd: "spawn_error (send_cmd e message) = spawn_error message"
proof -
  let ?pre = "SIGNAL_CLI_PATH @ ascii '' -u '' @ py_str_opt (SIGNAL_CLI_USER e) @
              ascii '' send --message '' @ [34]"
  let ?post = "[34] @ ascii '' --receiver-group '' @ py_str_opt (SIGNAL_GROUP_ID e)"
  have lit: "spawn_error SIGNAL_CLI_PATH = None" "spawn_error (ascii '' -u '') = None"
    "spawn_error (ascii '' send --message '') = None" "spawn_error [34] = None"
    "spawn_error (ascii '' --receiver-group '') = None"
    by (simp_all add: SIGNAL_CLI_PATH_def spawn_error_def unencodable_def ascii_def)
  have pre: "spawn_error ?pre = None"
    by (simp only: spawn_error_append_None lit SIGNAL_CLI_USER_def spawn_error_environ simp_thms)
  have post: "spawn_error ?post = None"
    by (simp only: spawn_error_append_None lit SIGNAL_GROUP_ID_def spawn_error_environ simp_thms)
  have "send_cmd e message = ?pre @ message @ ?post"
    by (simp add: send_cmd_def)
  then show ?thesis
    by (simp only: spawn_error_between [OF pre post])
qed

lemma spawn_error_receive_cmd: "spawn_error (receive_cmd e) = None"
proof -
  have lit: "spawn_error SIGNAL_CLI_PATH = None" "spawn_error (ascii '' -u '') = None"
    "spawn_error (ascii '' receive -t'') = None"
    by (simp_all add: SIGNAL_CLI_PATH_def spawn_error_def unencodable_def ascii_def)
  show ?thesis
    unfolding receive_cmd_def
    by (simp only: spawn_error_append_None lit SIGNAL_CLI_USER_def spawn_error_environ simp_thms)
qed

lemma spawn_error_fixed_messages:
  "spawn_error denied_message = None" "spawn_error help_message = None"
  "spawn_error alert_message = None"
  by (simp_all add: denied_message_def help_message_def alert_message_def spawn_error_def
      unencodable_def ascii_def)


lemma spawn_error_actions:
  "map_of bound_action command = Some cmd \<Longrightarrow> spawn_error cmd = None"
  by (auto simp add: bound_action_def spawn_error_def unencodable_def ascii_def
      split: if_splits)

lemma spawn_error_py_str_nat: "spawn_error (py_str_nat n) = None"
proof (induction n rule: py_str_nat.induct)
  case (1 n)
  show ?case
  proof (cases "n < 10")
    case True
    then show ?thesis
      by (subst py_str_nat.simps) (simp add: spawn_error_def unencodable_def)
  next
    case False
    have "n mod 10 < 10"
      by simp
    then have digit: "spawn_error [48 + n mod 10] = None"
      by (auto simp add: spawn_error_def unencodable_def)
    show ?thesis
      using False "1.IH" digit
      by (subst py_str_nat.simps) (simp add: spawn_error_append_None)
  qed
qed

lemma spawn_error_probes: "spawn_error podman_cmd = None" "spawn_error (curl_cmd port) = None"
proof -
  show "spawn_error podman_cmd = None"
    by (simp add: podman_cmd_def spawn_error_def unencodable_def ascii_def)
  have "spawn_error (ascii ''curl --connect-timeout 5 -s http://localhost:'') = None"
    by (simp add: spawn_error_def unencodable_def ascii_def)
  then show "spawn_error (curl_cmd port) = None"
    by (simp add: curl_cmd_def spawn_error_append_None spawn_error_py_str_nat)
qed

lemma subprocess_run_started:
  "spawn_error cmd = None \<Longrightarrow>
   subprocess_run e cmd w =
     (Inr (shell e cmd (ncalls w)),
      w\<lparr>trace := trace w @ [Shell cmd], ncalls := Suc (ncalls w)\<rparr>)"
  by (simp add: subprocess_run_def)


lemma shells_append: "shells (xs @ ys) = shells xs @ shells ys"
  by (induction xs rule: shells.induct) simp_all

lemma effects_append: "effects (xs @ ys) = effects xs @ effects ys"
  by (induction xs rule: effects.induct) simp_all

lemma log_output_append: "log_output (xs @ ys) = log_output xs @ log_output ys"
  by (induction xs rule: log_output.induct) simp_all

lemma send_signal_message_sent:
  assumes "spawn_error m = None"
  shows "shells (trace (snd (send_signal_message e m w))) = shells (trace w) @ [send_cmd e m]"
  using assms
  by (simp add: send_signal_message_def subprocess_run_started spawn_error_send_cmd emit_def
      shells_append)


lemma handle_command_unauthorized:
  "\<not> py_in sender (AUTHORIZED_SENDERS e) \<Longrightarrow>
   handle_command e command sender w = send_signal_message e denied_message w"
  by (simp add: handle_command_def)

lemma handle_command_invalid:
  "py_in sender (AUTHORIZED_SENDERS e) \<Longrightarrow> command \<notin> set ALLOWED_COMMANDS \<Longrightarrow>
   handle_command e command sender w = send_signal_message e (invalid_message command) w"
  by (simp add: handle_command_def)

lemma handle_command_help:
  "py_in sender (AUTHORIZED_SENDERS e) \<Longrightarrow>
   handle_command e (ascii ''foundry help'') sender w = send_signal_message e help_message w"
  by (simp add: handle_command_def ALLOWED_COMMANDS_def ascii_def)

lemma handle_command_action:
  "py_in sender (AUTHORIZED_SENDERS e) \<Longrightarrow> map_of bound_action command = Some cmd \<Longrightarrow>
   handle_command e command sender w = statement (subprocess_run e cmd w)"
  by (auto simp add: handle_command_def ALLOWED_COMMANDS_def bound_action_def ascii_def
      split: if_splits)

lemma allowed_commands_cases:
  "command \<in> set ALLOWED_COMMANDS \<longleftrightarrow>
   command = ascii ''foundry help'' \<or> map_of bound_action command \<noteq> None"
  by (auto simp add: ALLOWED_COMMANDS_def bound_action_def ascii_def)

lemma help_message_lines:
  "help_message =
     ascii ''Available commands:'' @
     concat (map (\<lambda>c. [10] @ COMMAND_PREFIX @ c) ALLOWED_COMMANDS)"
  by (simp add: help_message_def ALLOWED_COMMANDS_def COMMAND_PREFIX_def ascii_def)

lemma prefixed_nonempty: "py_startswith s COMMAND_PREFIX \<Longrightarrow> s \<noteq> []"
  by (auto simp add: py_startswith_def COMMAND_PREFIX_def ascii_def)

lemma dispatch_no_prefix:
  "\<not> py_startswith s COMMAND_PREFIX \<Longrightarrow> dispatch_body e source (JString s) w = (None, w)"
  by (simp add: dispatch_body_def parse_command_def)

lemma dispatch_command:
  "py_startswith s COMMAND_PREFIX \<Longrightarrow> py_strip (drop (length COMMAND_PREFIX) s) \<noteq> [] \<Longrightarrow>
   dispatch_body e source (JString s) w =
     handle_command e (py_strip (drop (length COMMAND_PREFIX) s)) source w"
  using prefixed_nonempty [of s] by (simp add: dispatch_body_def parse_command_def py_truthy_def)


lemma process_message_envelope:
  assumes "json_loads e raw = Some (JObject outer)"
    and "map_of outer (ascii ''envelope'') = Some (JObject kvs)"
    and "map_of kvs (ascii ''dataMessage'') = Some (JObject dm)"
    and "map_of dm (ascii ''message'') = Some body"
  shows "process_message e raw w =
           dispatch_body e
             (case map_of kvs (ascii ''source'') of None \<Rightarrow> JString [] | Some v \<Rightarrow> v) body w"
  using assms by (simp add: process_message_def py_get_def split: option.split)

lemma example_environ:
  "environ example_host key =
     (if key = ascii ''AUTHORIZED_SENDERS'' then Some (ascii ''+15550001,+15550002'')
      else if key = ascii ''SIGNAL_CLI_USER'' then Some (ascii ''+15550000'')
      else if key = ascii ''SIGNAL_GROUP_ID'' then Some (ascii ''group1'')
      else None)"
proof -
  have "spawn_error (ascii ''+15550001,+15550002'') = None"
    "spawn_error (ascii ''+15550000'') = None" "spawn_error (ascii ''group1'') = None"
    by (simp_all add: spawn_error_def unencodable_def ascii_def)
  then show ?thesis
    by (simp add: environ_def example_host_def example_environment_def Abs_envstr_inverse)
qed

lemma example_allow_list:
  "AUTHORIZED_SENDERS example_host = [ascii ''+15550001'', ascii ''+15550002'']"
  by (simp add: AUTHORIZED_SENDERS_def example_environ) (simp add: ascii_def)

lemma strip_reboot:
  "py_strip (drop (length COMMAND_PREFIX) (ascii ''!foundry reboot'')) = ascii ''foundry reboot''"
  by (simp add: py_strip_def py_isspace_def COMMAND_PREFIX_def ascii_def)

lemma strip_uptime:
  "py_strip (drop (length COMMAND_PREFIX) (ascii ''!foundry uptime'')) = ascii ''foundry uptime''"
  by (simp add: py_strip_def py_isspace_def COMMAND_PREFIX_def ascii_def)



section \<open>Authorization and dispatch\<close>

text \<open>
  C1, as stated, fails: the sender is checked inside \<^verbatim>\<open>handle_command\<close>, which is only
  reached for a body that parses to a non-empty command. An unlisted sender writing
  ordinary text gets no "access denied" notification at all.
\<close>

theorem unauthorized_chat_gets_no_denial:
  "\<not> py_in (JString (ascii ''+19990000'')) (AUTHORIZED_SENDERS example_host) \<and>
   dispatch_body example_host (JString (ascii ''+19990000'')) (JString (ascii ''hello'')) w0
     = (None, w0) \<and>
   shells (trace w0) = []"
  by (simp add: example_allow_list py_in_def dispatch_no_prefix py_startswith_def
      COMMAND_PREFIX_def w0_def ascii_def)

text \<open>
  C1, amended: for every envelope whose sender is not in the allow-list and whose body
  starts with the prefix and has a non-empty trimmed remainder, processing the envelope
  runs exactly one command line, the send of the fixed "access denied" text, and nothing
  else, whatever the command text is (valid or not).
\<close>

theorem unauthorized_command_denied:
  assumes "\<not> py_in source (AUTHORIZED_SENDERS e)"
    and "py_startswith s COMMAND_PREFIX"
    and "py_strip (drop (length COMMAND_PREFIX) s) \<noteq> []"
  shows "dispatch_body e source (JString s) w = send_signal_message e denied_message w \<and>
         shells (trace (snd (send_signal_message e denied_message w))) =
           shells (trace w) @ [send_cmd e denied_message]"
  using assms send_signal_message_sent [OF spawn_error_fixed_messages(1), of e w]
  by (simp add: dispatch_command handle_command_unauthorized)

theorem unauthorized_command_denied_witness:
  "\<not> py_in (JString (ascii ''+19990000'')) (AUTHORIZED_SENDERS example_host) \<and>
   py_startswith (ascii ''!foundry reboot'') COMMAND_PREFIX \<and>
   dispatch_body example_host (JString (ascii ''+19990000''))
       (JString (ascii ''!foundry reboot'')) w0
     = send_signal_message example_host denied_message w0 \<and>
   shells (trace (snd (send_signal_message example_host denied_message w0))) =
     [send_cmd example_host denied_message]"
proof -
  have h1: "\<not> py_in (JString (ascii ''+19990000'')) (AUTHORIZED_SENDERS example_host)"
    by (simp add: example_allow_list py_in_def ascii_def)
  have h2: "py_startswith (ascii ''!foundry reboot'') COMMAND_PREFIX"
    by (simp add: py_startswith_def COMMAND_PREFIX_def ascii_def)
  have h3: "py_strip (drop (length COMMAND_PREFIX) (ascii ''!foundry reboot'')) \<noteq> []"
    unfolding strip_reboot by (simp add: ascii_def)
  show ?thesis
    using h1 h2 unauthorized_command_denied [OF h1 h2 h3, of w0]
    by (simp add: w0_def)
qed

text \<open>
  C2: when \<^verbatim>\<open>AUTHORIZED_SENDERS\<close> is unset or empty, the allow-list is the one-element list
  holding the empty string. A sender that is the empty string then passes the check of
  \<^verbatim>\<open>handle_command\<close>: an unknown command gets the "invalid command" reply, help gets the
  help text, every other command runs its command line; and an envelope without a source
  field is handled with the empty string as its sender.
\<close>

theorem unset_allow_list_admits_empty_sender:
  assumes "environ e (ascii ''AUTHORIZED_SENDERS'') = None \<or>
           environ e (ascii ''AUTHORIZED_SENDERS'') = Some []"
  shows "AUTHORIZED_SENDERS e = [Nil] \<and>
         handle_command e command (JString []) w =
           (if command \<notin> set ALLOWED_COMMANDS then
              send_signal_message e (invalid_message command) w
            else if command = ascii ''foundry help'' then send_signal_message e help_message w
            else statement (subprocess_run e (the (map_of bound_action command)) w)) \<and>
         (json_loads e raw = Some (JObject outer) \<and>
          map_of outer (ascii ''envelope'') = Some (JObject kvs) \<and>
          map_of kvs (ascii ''source'') = None \<and>
          map_of kvs (ascii ''dataMessage'') = Some (JObject dm) \<and>
          map_of dm (ascii ''message'') = Some (JString s) \<and>
          py_startswith s COMMAND_PREFIX \<and>
          py_strip (drop (length COMMAND_PREFIX) s) \<noteq> [] \<longrightarrow>
          process_message e raw w =
            handle_command e (py_strip (drop (length COMMAND_PREFIX) s)) (JString []) w)"
proof -
  have allow: "AUTHORIZED_SENDERS e = [Nil]"
    using assms by (auto simp add: AUTHORIZED_SENDERS_def)
  then have member: "py_in (JString []) (AUTHORIZED_SENDERS e)"
    by (simp add: py_in_def)
  have "handle_command e command (JString []) w =
          (if command \<notin> set ALLOWED_COMMANDS then
             send_signal_message e (invalid_message command) w
           else if command = ascii ''foundry help'' then send_signal_message e help_message w
           else statement (subprocess_run e (the (map_of bound_action command)) w))"
  proof (cases "command \<in> set ALLOWED_COMMANDS")
    case False
    then show ?thesis by (simp add: handle_command_invalid [OF member])
  next
    case True
    show ?thesis
    proof (cases "command = ascii ''foundry help''")
      case True
      then show ?thesis
        using \<open>command \<in> set ALLOWED_COMMANDS\<close> by (simp add: handle_command_help [OF member])
    next
      case False
      with True obtain cmd where "map_of bound_action command = Some cmd"
        by (auto simp add: allowed_commands_cases)
      then show ?thesis
        using True False by (simp add: handle_command_action [OF member])
    qed
  qed
  moreover have "process_message e raw w =
      handle_command e (py_strip (drop (length COMMAND_PREFIX) s)) (JString []) w"
    if "json_loads e raw = Some (JObject outer)"
      and "map_of outer (ascii ''envelope'') = Some (JObject kvs)"
      and "map_of kvs (ascii ''source'') = None"
      and "map_of kvs (ascii ''dataMessage'') = Some (JObject dm)"
      and "map_of dm (ascii ''message'') = Some (JString s)"
      and "py_startswith s COMMAND_PREFIX"
      and "py_strip (drop (length COMMAND_PREFIX) s) \<noteq> []"
    using that by (simp add: process_message_envelope dispatch_command)
  ultimately show ?thesis
    using allow by blast
qed

theorem unset_allow_list_admits_empty_sender_witness:
  "environ unconfigured_host (ascii ''AUTHORIZED_SENDERS'') = None \<and>
   AUTHORIZED_SENDERS unconfigured_host = [Nil] \<and>
   handle_command unconfigured_host (ascii ''foundry uptime'') (JString []) w0 =
     (None, \<lparr>trace = [Shell (ascii ''uptime'')], ncalls = 1\<rparr>) \<and>
   process_message unconfigured_host anonymous_line w0 =
     (None, \<lparr>trace = [Shell (ascii ''uptime'')], ncalls = 1\<rparr>)"
proof -
  let ?dm = "[(ascii ''message'', JString (ascii ''!foundry uptime''))]"
  let ?kvs = "[(ascii ''dataMessage'', JObject ?dm)]"
  let ?outer = "[(ascii ''envelope'', JObject ?kvs)]"
  have unset: "environ unconfigured_host (ascii ''AUTHORIZED_SENDERS'') = None"
    by (simp add: environ_def unconfigured_host_def)
  then have h: "environ unconfigured_host (ascii ''AUTHORIZED_SENDERS'') = None \<or>
           environ unconfigured_host (ascii ''AUTHORIZED_SENDERS'') = Some []"
    by (rule disjI1)
  note inst = unset_allow_list_admits_empty_sender [OF h,
      of "ascii ''foundry uptime''" w0 anonymous_line ?outer ?kvs ?dm "ascii ''!foundry uptime''"]
  have allow: "AUTHORIZED_SENDERS unconfigured_host = [Nil]"
    using inst by (rule conjunct1)
  have allowed: "ascii ''foundry uptime'' \<in> set ALLOWED_COMMANDS"
    by (simp add: ALLOWED_COMMANDS_def)
  have not_help: "ascii ''foundry uptime'' \<noteq> ascii ''foundry help''"
    by (simp add: ascii_def)
  have action: "the (map_of bound_action (ascii ''foundry uptime'')) = ascii ''uptime''"
    by (simp add: bound_action_def ascii_def)
  have "spawn_error (ascii ''uptime'') = None"
    by (simp add: spawn_error_def unencodable_def ascii_def)
  then have run: "statement (subprocess_run unconfigured_host (ascii ''uptime'') w0) =
               (None, \<lparr>trace = [Shell (ascii ''uptime'')], ncalls = 1\<rparr>)"
    by (simp add: subprocess_run_started statement_def w0_def)
  have "handle_command unconfigured_host (ascii ''foundry uptime'') (JString []) w0 =
          statement (subprocess_run unconfigured_host
            (the (map_of bound_action (ascii ''foundry uptime''))) w0)"
    using inst allowed not_help by (simp only: if_False if_True simp_thms)
  then have handled:
    "handle_command unconfigured_host (ascii ''foundry uptime'') (JString []) w0 =
       (None, \<lparr>trace = [Shell (ascii ''uptime'')], ncalls = 1\<rparr>)"
    by (simp only: action run)
  have p1: "json_loads unconfigured_host anonymous_line = Some (JObject ?outer)"
    by (simp add: unconfigured_host_def anonymous_envelope_def)
  have p2: "map_of ?outer (ascii ''envelope'') = Some (JObject ?kvs)"
    by simp
  have p3: "map_of ?kvs (ascii ''source'') = None"
    by (simp add: ascii_def)
  have p4: "map_of ?kvs (ascii ''dataMessage'') = Some (JObject ?dm)"
    by simp
  have p5: "map_of ?dm (ascii ''message'') = Some (JString (ascii ''!foundry uptime''))"
    by simp
  have p6: "py_startswith (ascii ''!foundry uptime'') COMMAND_PREFIX"
    by (simp add: py_startswith_def COMMAND_PREFIX_def ascii_def)
  have p7: "py_strip (drop (length COMMAND_PREFIX) (ascii ''!foundry uptime'')) \<noteq> []"
    unfolding strip_uptime by (simp add: ascii_def)
  have "process_message unconfigured_host anonymous_line w0 =
          handle_command unconfigured_host
            (py_strip (drop (length COMMAND_PREFIX) (ascii ''!foundry uptime'')))
            (JString []) w0"
    using inst p1 p2 p3 p4 p5 p6 p7 by blast
  then have processed: "process_message unconfigured_host anonymous_line w0 =
       (None, \<lparr>trace = [Shell (ascii ''uptime'')], ncalls = 1\<rparr>)"
    by (simp only: strip_uptime handled)
  show ?thesis
    using unset allow handled processed by blast
qed






text \<open>
  C7: for every body that does not start with the prefix character, whoever the sender
  is, processing changes nothing: no command line is run, so no local action and no
  reply.
\<close>

theorem unprefixed_body_ignored:
  assumes "\<not> py_startswith s COMMAND_PREFIX"
  shows "parse_command (JString s) = Inr None \<and>
         dispatch_body e source (JString s) w = (None, w)"
  using assms by (simp add: dispatch_no_prefix parse_command_def)

theorem unprefixed_body_ignored_witness:
  "\<not> py_startswith (ascii ''foundry reboot'') COMMAND_PREFIX \<and>
   parse_command (JString (ascii ''foundry reboot'')) = Inr None \<and>
   dispatch_body example_host (JString (ascii ''+15550001''))
       (JString (ascii ''foundry reboot'')) w0 = (None, w0)"
proof -
  have h: "\<not> py_startswith (ascii ''foundry reboot'') COMMAND_PREFIX"
    by (simp add: py_startswith_def COMMAND_PREFIX_def ascii_def)
  show ?thesis
    using h unprefixed_body_ignored [OF h, of example_host "JString (ascii ''+15550001'')" w0]
    by simp
qed

text \<open>
  C8: for every authorized sender, the command "foundry help" runs exactly one command
  line, the send of \<open>help_message\<close>. The text does not depend on the sender, and it is the
  heading followed by one line per entry of \<open>ALLOWED_COMMANDS\<close>, the prefix before each of
  the eight distinct entries.
\<close>

theorem help_sends_fixed_list:
  assumes "py_in sender (AUTHORIZED_SENDERS e)"
  shows "handle_command e (ascii ''foundry help'') sender w =
           send_signal_message e help_message w \<and>
         shells (trace (snd (send_signal_message e help_message w))) =
           shells (trace w) @ [send_cmd e help_message] \<and>
         help_message =
           ascii ''Available commands:'' @
           concat (map (\<lambda>c. [10] @ COMMAND_PREFIX @ c) ALLOWED_COMMANDS) \<and>
         length ALLOWED_COMMANDS = 8 \<and> distinct ALLOWED_COMMANDS"
proof -
  have "length ALLOWED_COMMANDS = 8 \<and> distinct ALLOWED_COMMANDS"
    by (simp add: ALLOWED_COMMANDS_def ascii_def)
  then show ?thesis
    using assms help_message_lines
      send_signal_message_sent [OF spawn_error_fixed_messages(2), of e w]
    by (simp add: handle_command_help)
qed

theorem help_sends_fixed_list_witness:
  "py_in (JString (ascii ''+15550001'')) (AUTHORIZED_SENDERS example_host) \<and>
   py_in (JString (ascii ''+15550002'')) (AUTHORIZED_SENDERS example_host) \<and>
   handle_command example_host (ascii ''foundry help'') (JString (ascii ''+15550001'')) w0 =
     handle_command example_host (ascii ''foundry help'') (JString (ascii ''+15550002'')) w0 \<and>
   shells (trace (snd (handle_command example_host (ascii ''foundry help'')
       (JString (ascii ''+15550001'')) w0))) = [send_cmd example_host help_message]"
proof -
  have h1: "py_in (JString (ascii ''+15550001'')) (AUTHORIZED_SENDERS example_host)"
    by (simp add: example_allow_list py_in_def)
  have h2: "py_in (JString (ascii ''+15550002'')) (AUTHORIZED_SENDERS example_host)"
    by (simp add: example_allow_list py_in_def)
  show ?thesis
    using h1 h2 help_sends_fixed_list [OF h1, of w0] help_sends_fixed_list [OF h2, of w0]
    by (simp add: w0_def)
qed

section \<open>Health monitor\<close>

lemma strip_empty_iff: "py_strip s = [] \<longleftrightarrow> (\<forall>c\<in>set s. py_isspace c)"
proof
  assume "py_strip s = []"
  then have "\<forall>c\<in>set (dropWhile py_isspace s). py_isspace c"
    by (simp add: py_strip_def dropWhile_eq_Nil_conv)
  then have "dropWhile py_isspace s = []"
    using hd_dropWhile [of py_isspace s] hd_in_set [of "dropWhile py_isspace s"] by blast
  then show "\<forall>c\<in>set s. py_isspace c"
    by (simp add: dropWhile_eq_Nil_conv)
next
  assume "\<forall>c\<in>set s. py_isspace c"
  then have d: "dropWhile py_isspace s = []"
    by (simp add: dropWhile_eq_Nil_conv)
  show "py_strip s = []"
    unfolding py_strip_def d by simp
qed

lemma curl_not_podman: "curl_cmd port \<noteq> podman_cmd"
  by (simp add: curl_cmd_def podman_cmd_def ascii_def)

lemma send_not_podman: "send_cmd e m \<noteq> podman_cmd"
  by (simp add: send_cmd_def podman_cmd_def SIGNAL_CLI_PATH_def ascii_def)

lemma probe_rounds_append: "probe_rounds (xs @ ys) = probe_rounds xs + probe_rounds ys"
  by (simp add: probe_rounds_def shells_append)

lemma attempts_range: "[1..<3 + 1] = [1, 2, 3::nat]"
  by (simp add: upt_rec)

lemma check_foundry_container_result:
  "check_foundry_container e w =
     (if undecodable (shell e podman_cmd (ncalls w)) then Inl UnicodeDecodeError
      else Inr (py_strip (stdout (shell e podman_cmd (ncalls w))) \<noteq> []),
      w\<lparr>trace := trace w @ [Shell podman_cmd], ncalls := Suc (ncalls w)\<rparr>)"
  by (simp add: check_foundry_container_def subprocess_run_text_def
      subprocess_run_started [OF spawn_error_probes(1)])

lemma check_web_server_result:
  "check_web_server e port w =
     (if undecodable (shell e (curl_cmd port) (ncalls w)) then Inl UnicodeDecodeError
      else Inr (returncode (shell e (curl_cmd port) (ncalls w)) = 0),
      w\<lparr>trace := trace w @ [Shell (curl_cmd port)], ncalls := Suc (ncalls w)\<rparr>)"
  by (simp add: check_web_server_def subprocess_run_text_def
      subprocess_run_started [OF spawn_error_probes(2)])

lemma send_signal_alert_result:
  "send_signal_alert e alert_message w =
     (None,
      log_message
        (if returncode (shell e (send_cmd e alert_message) (ncalls w)) \<noteq> 0
         then ascii ''Failed to send Signal alert.''
         else ascii ''Signal alert sent successfully.'')
        (w\<lparr>trace := trace w @ [Shell (send_cmd e alert_message)], ncalls := Suc (ncalls w)\<rparr>))"
proof -
  have "spawn_error (send_cmd e alert_message) = None"
    by (simp add: spawn_error_send_cmd spawn_error_fixed_messages)
  then show ?thesis
    by (simp add: send_signal_alert_def subprocess_run_started)
qed

lemma effects_log_message: "effects (trace (log_message m w)) = effects (trace w)"
  by (simp add: log_message_def emit_def effects_append)

lemma rounds_log_message: "probe_rounds (trace (log_message m w)) = probe_rounds (trace w)"
  by (simp add: log_message_def emit_def probe_rounds_append) (simp add: probe_rounds_def)

lemma rounds_sleep: "probe_rounds (trace (emit (Sleep n) w)) = probe_rounds (trace w)"
  by (simp add: emit_def probe_rounds_append) (simp add: probe_rounds_def)

lemma rounds_check_foundry_container:
  "probe_rounds (trace (snd (check_foundry_container e w))) = Suc (probe_rounds (trace w))"
  by (simp add: check_foundry_container_result probe_rounds_append)
     (simp add: probe_rounds_def)

lemma rounds_check_web_server:
  "probe_rounds (trace (snd (check_web_server e port w))) = probe_rounds (trace w)"
  by (simp add: check_web_server_result probe_rounds_append)
     (simp add: probe_rounds_def curl_not_podman)

lemma rounds_send_signal_alert:
  "probe_rounds (trace (snd (send_signal_alert e alert_message w))) = probe_rounds (trace w)"
  by (simp add: send_signal_alert_result rounds_log_message probe_rounds_append)
     (simp add: probe_rounds_def send_not_podman)

lemmas rounds_steps =
  rounds_log_message rounds_sleep rounds_check_foundry_container rounds_check_web_server
  rounds_send_signal_alert

lemma health_loop_step:
  "health_loop e (attempt # rest) w =
     (let w1 = log_message (ascii ''Health check attempt '' @ py_str_nat attempt @ ascii ''...'') w;
          c = fst (check_foundry_container e w1);
          w2 = snd (check_foundry_container e w1);
          b = fst (check_web_server e 29000 w2);
          w3 = snd (check_web_server e 29000 w2)
      in case c of
           Inl x \<Rightarrow> (Inl x, w2)
         | Inr container_ok \<Rightarrow>
             (case b of
                Inl x \<Rightarrow> (Inl x, w3)
              | Inr web_ok \<Rightarrow>
                  if container_ok \<and> web_ok
                  then (Inr True,
                        log_message (ascii ''FoundryVTT container and web server are healthy.'') w3)
                  else health_loop e rest
                         (emit (Sleep 5)
                            (log_message (attempt_message attempt container_ok web_ok) w3))))"
  by (auto simp add: Let_def split: prod.splits sum.splits)

lemma health_loop_done:
  "health_loop e [] w = (Inr False, snd (send_signal_alert e alert_message w))"
  by (simp add: send_signal_alert_result)

lemma health_loop_all_fail:
  assumes "\<And>n. \<not> undecodable (shell e podman_cmd n) \<and>
                py_strip (stdout (shell e podman_cmd n)) = []"
    and "\<And>n. \<not> undecodable (shell e (curl_cmd 29000) n) \<and>
              returncode (shell e (curl_cmd 29000) n) \<noteq> 0"
  shows "fst (health_loop e attempts w) = Inr False \<and>
         effects (trace (snd (health_loop e attempts w))) =
           effects (trace w) @
           concat (map (\<lambda>a. [Shell podman_cmd, Shell (curl_cmd 29000), Sleep 5]) attempts) @
           [Shell (send_cmd e alert_message)]"
proof (induction attempts arbitrary: w)
  case Nil
  show ?case
    by (simp add: send_signal_alert_result effects_log_message effects_append)
next
  case (Cons a attempts)
  show ?case
    using assms
    by (simp add: Cons.IH health_loop_step Let_def check_foundry_container_result
        check_web_server_result effects_log_message effects_append emit_def
        del: health_loop.simps)
qed

lemma health_loop_rounds_upper:
  "probe_rounds (trace (snd (health_loop e attempts w))) \<le>
     probe_rounds (trace w) + length attempts"
proof (induction attempts arbitrary: w)
  case Nil
  show ?case by (simp add: health_loop_done rounds_steps del: health_loop.simps)
next
  case (Cons a attempts)
  show ?case
    by (auto simp add: health_loop_step Let_def rounds_steps simp del: health_loop.simps
        split: sum.splits intro!: order_trans [OF Cons.IH])
qed

lemma health_loop_rounds_lower:
  "probe_rounds (trace w) \<le> probe_rounds (trace (snd (health_loop e attempts w)))"
proof (induction attempts arbitrary: w)
  case Nil
  show ?case by (simp add: health_loop_done rounds_steps del: health_loop.simps)
next
  case (Cons a attempts)
  show ?case
    by (auto simp add: health_loop_step Let_def rounds_steps simp del: health_loop.simps
        split: sum.splits intro!: order_trans [OF _ Cons.IH])
qed

lemma health_loop_first_round:
  "probe_rounds (trace w) < probe_rounds (trace (snd (health_loop e (a # attempts) w)))"
  by (auto simp add: health_loop_step Let_def rounds_steps simp del: health_loop.simps
      split: sum.splits intro!: less_le_trans [OF _ health_loop_rounds_lower])

lemma shells_effects: "shells (effects evs) = shells evs"
  by (induction evs rule: effects.induct) simp_all

lemma probe_rounds_effects: "probe_rounds evs = probe_rounds (effects evs)"
  by (simp add: probe_rounds_def shells_effects)

text \<open>
  C4: on a host where every container query returns output that is blank and every web
  probe returns a non-zero status (the Prober answers (false, false) every time), the
  monitor returns \<open>False\<close> after exactly three probe rounds, each followed by a sleep of 5,
  so that a sleep of 5 lies between consecutive rounds, and after the last sleep it runs
  exactly one send, that of the alert text.
\<close>

theorem health_check_exhausts_retries:
  assumes "\<forall>n. \<not> undecodable (shell e podman_cmd n) \<and>
               py_strip (stdout (shell e podman_cmd n)) = []"
    and "\<forall>n. \<not> undecodable (shell e (curl_cmd 29000) n) \<and>
             returncode (shell e (curl_cmd 29000) n) \<noteq> 0"
  shows "fst (health_check e w) = Inr False \<and>
         effects (trace (snd (health_check e w))) =
           effects (trace w) @
           [Shell podman_cmd, Shell (curl_cmd 29000), Sleep 5,
            Shell podman_cmd, Shell (curl_cmd 29000), Sleep 5,
            Shell podman_cmd, Shell (curl_cmd 29000), Sleep 5,
            Shell (send_cmd e alert_message)] \<and>
         probe_rounds (trace (snd (health_check e w))) = probe_rounds (trace w) + 3"
proof -
  note loop = health_loop_all_fail [of e "[1, 2, 3]" w, OF spec [OF assms(1)] spec [OF assms(2)]]
  have run: "health_check e w = health_loop e [1, 2, 3] w"
    by (simp only: health_check_def Let_def attempts_range)
  have eff: "effects (trace (snd (health_check e w))) =
           effects (trace w) @
           [Shell podman_cmd, Shell (curl_cmd 29000), Sleep 5,
            Shell podman_cmd, Shell (curl_cmd 29000), Sleep 5,
            Shell podman_cmd, Shell (curl_cmd 29000), Sleep 5,
            Shell (send_cmd e alert_message)]"
    using loop by (simp add: run del: health_loop.simps)
  have "probe_rounds (trace (snd (health_check e w))) =
          probe_rounds (effects (trace (snd (health_check e w))))"
    by (rule probe_rounds_effects)
  also have "\<dots> = probe_rounds (effects (trace w)) + 3"
    unfolding eff probe_rounds_append
    by (simp add: probe_rounds_def curl_not_podman send_not_podman)
  also have "\<dots> = probe_rounds (trace w) + 3"
    by (simp add: probe_rounds_effects [symmetric])
  finally show ?thesis
    using loop eff by (simp add: run del: health_loop.simps)
qed

theorem health_check_exhausts_retries_witness:
  "(\<forall>n. \<not> undecodable (shell down_host podman_cmd n) \<and>
        py_strip (stdout (shell down_host podman_cmd n)) = []) \<and>
   (\<forall>n. \<not> undecodable (shell down_host (curl_cmd 29000) n) \<and>
        returncode (shell down_host (curl_cmd 29000) n) \<noteq> 0) \<and>
   fst (health_check down_host w0) = Inr False \<and>
   effects (trace (snd (health_check down_host w0))) =
     [Shell podman_cmd, Shell (curl_cmd 29000), Sleep 5,
      Shell podman_cmd, Shell (curl_cmd 29000), Sleep 5,
      Shell podman_cmd, Shell (curl_cmd 29000), Sleep 5,
      Shell (send_cmd down_host alert_message)] \<and>
   probe_rounds (trace (snd (health_check down_host w0))) = 3"
proof -
  have h1: "\<forall>n. \<not> undecodable (shell down_host podman_cmd n) \<and>
               py_strip (stdout (shell down_host podman_cmd n)) = []"
    by (simp add: down_host_def py_strip_def)
  have h2: "\<forall>n. \<not> undecodable (shell down_host (curl_cmd 29000) n) \<and>
               returncode (shell down_host (curl_cmd 29000) n) \<noteq> 0"
    by (simp add: down_host_def)
  have start: "effects (trace w0) = [] \<and> probe_rounds (trace w0) = 0"
    by (simp add: w0_def probe_rounds_def)
  show ?thesis
    using h1 h2 start health_check_exhausts_retries [OF h1 h2, of w0]
    by simp
qed

text \<open>
  C5: when the first round returns and fails (the container query prints nothing or the
  web probe exits non-zero) and in the second round the container query prints an id and
  the web probe exits with 0, the monitor returns \<open>True\<close> after exactly two probe rounds
  with one sleep of 5 between them, and runs no send.
\<close>

theorem health_check_recovers_in_second_round:
  assumes "\<not> undecodable (shell e podman_cmd (ncalls w)) \<and>
           \<not> undecodable (shell e (curl_cmd 29000) (Suc (ncalls w)))"
    and "py_strip (stdout (shell e podman_cmd (ncalls w))) = [] \<or>
         returncode (shell e (curl_cmd 29000) (Suc (ncalls w))) \<noteq> 0"
    and "\<not> undecodable (shell e podman_cmd (Suc (Suc (ncalls w)))) \<and>
         py_strip (stdout (shell e podman_cmd (Suc (Suc (ncalls w))))) \<noteq> []"
    and "\<not> undecodable (shell e (curl_cmd 29000) (Suc (Suc (Suc (ncalls w))))) \<and>
         returncode (shell e (curl_cmd 29000) (Suc (Suc (Suc (ncalls w))))) = 0"
  shows "fst (health_check e w) = Inr True \<and>
         effects (trace (snd (health_check e w))) =
           effects (trace w) @
           [Shell podman_cmd, Shell (curl_cmd 29000), Sleep 5,
            Shell podman_cmd, Shell (curl_cmd 29000)] \<and>
         probe_rounds (trace (snd (health_check e w))) = probe_rounds (trace w) + 2"
proof -
  have run: "health_check e w = health_loop e [1, 2, 3] w"
    by (simp only: health_check_def Let_def attempts_range)
  have res: "fst (health_check e w) = Inr True \<and>
         effects (trace (snd (health_check e w))) =
           effects (trace w) @
           [Shell podman_cmd, Shell (curl_cmd 29000), Sleep 5,
            Shell podman_cmd, Shell (curl_cmd 29000)]"
    using assms
    by (auto simp add: run health_loop_step Let_def check_foundry_container_result
        check_web_server_result log_message_def emit_def effects_append
        simp del: health_loop.simps)
  have "probe_rounds (trace (snd (health_check e w))) =
          probe_rounds (effects (trace (snd (health_check e w))))"
    by (rule probe_rounds_effects)
  also have "\<dots> = probe_rounds (effects (trace w)) + 2"
    unfolding conjunct2 [OF res] probe_rounds_append
    by (simp add: probe_rounds_def curl_not_podman)
  also have "\<dots> = probe_rounds (trace w) + 2"
    by (simp add: probe_rounds_effects [symmetric])
  finally show ?thesis
    using res by simp
qed

theorem health_check_recovers_in_second_round_witness:
  "\<not> undecodable (shell recovering_host podman_cmd (ncalls w0)) \<and>
   py_strip (stdout (shell recovering_host podman_cmd (ncalls w0))) = [] \<and>
   py_strip (stdout (shell recovering_host podman_cmd (Suc (Suc (ncalls w0))))) \<noteq> [] \<and>
   returncode (shell recovering_host (curl_cmd 29000) (Suc (Suc (Suc (ncalls w0))))) = 0 \<and>
   fst (health_check recovering_host w0) = Inr True \<and>
   effects (trace (snd (health_check recovering_host w0))) =
     [Shell podman_cmd, Shell (curl_cmd 29000), Sleep 5,
      Shell podman_cmd, Shell (curl_cmd 29000)] \<and>
   probe_rounds (trace (snd (health_check recovering_host w0))) = 2"
proof -
  have h0: "\<not> undecodable (shell recovering_host podman_cmd (ncalls w0)) \<and>
           \<not> undecodable (shell recovering_host (curl_cmd 29000) (Suc (ncalls w0)))"
    by (simp add: recovering_host_def)
  have a: "py_strip (stdout (shell recovering_host podman_cmd (ncalls w0))) = []"
    by (simp add: recovering_host_def w0_def py_strip_def)
  then have h1: "py_strip (stdout (shell recovering_host podman_cmd (ncalls w0))) = [] \<or>
           returncode (shell recovering_host (curl_cmd 29000) (Suc (ncalls w0))) \<noteq> 0"
    by (rule disjI1)
  have h2: "\<not> undecodable (shell recovering_host podman_cmd (Suc (Suc (ncalls w0)))) \<and>
     py_strip (stdout (shell recovering_host podman_cmd (Suc (Suc (ncalls w0))))) \<noteq> []"
    by (simp add: recovering_host_def w0_def py_strip_def py_isspace_def ascii_def)
  have h3: "\<not> undecodable (shell recovering_host (curl_cmd 29000) (Suc (Suc (Suc (ncalls w0))))) \<and>
     returncode (shell recovering_host (curl_cmd 29000) (Suc (Suc (Suc (ncalls w0))))) = 0"
    by (simp add: recovering_host_def w0_def curl_not_podman)
  have start: "effects (trace w0) = [] \<and> probe_rounds (trace w0) = 0"
    by (simp add: w0_def probe_rounds_def)
  show ?thesis
    using h0 a h2 h3 start health_check_recovers_in_second_round [OF h0 h1 h2 h3]
    by simp
qed

text \<open>
  C9, as stated, fails. The output of both commands is captured as text, so a web probe
  that fails after writing bytes that are not text (here status 18) makes
  \<^verbatim>\<open>check_web_server\<close> raise \<^verbatim>\<open>UnicodeDecodeError\<close> instead of returning false. And
  \<^verbatim>\<open>check_foundry_container\<close> never reads the exit status: a query that lists an id and
  then fails (here status 125) is answered with true.
\<close>

theorem failing_probe_raises_or_answers_true:
  "returncode (shell broken_host (curl_cmd 29000) (ncalls w0)) = 18 \<and>
   fst (check_web_server broken_host 29000 w0) = Inl UnicodeDecodeError \<and>
   returncode (shell broken_host podman_cmd (ncalls w0)) = 125 \<and>
   fst (check_foundry_container broken_host w0) = Inr True"
  by (simp add: check_web_server_result check_foundry_container_result)
     (simp add: broken_host_def curl_not_podman py_strip_def py_isspace_def ascii_def)

text \<open>
  C9, amended: provided the captured output of the command decodes as text,
  \<^verbatim>\<open>check_foundry_container\<close> returns true iff the standard output of the container query
  (\<^verbatim>\<open>podman ps\<close> filtered by name and running status, ids only) has a character that is not
  whitespace, without reading the exit status, so it returns false when the query prints
  nothing; and \<^verbatim>\<open>check_web_server\<close> returns true iff the probe, \<^verbatim>\<open>curl\<close> with a connect
  timeout of 5 against the port on localhost, exits with status 0, whatever it printed,
  so it returns false for every non-zero status. Each runs its one command line and
  nothing else.
\<close>

theorem prober_answers:
  assumes "\<not> undecodable (shell e podman_cmd (ncalls w))"
    and "\<not> undecodable (shell e (curl_cmd port) (ncalls w))"
  shows "fst (check_foundry_container e w) =
           Inr (\<exists>c\<in>set (stdout (shell e podman_cmd (ncalls w))). \<not> py_isspace c) \<and>
         fst (check_web_server e port w) =
           Inr (returncode (shell e (curl_cmd port) (ncalls w)) = 0) \<and>
         (stdout (shell e podman_cmd (ncalls w)) = [] \<longrightarrow>
            fst (check_foundry_container e w) = Inr False) \<and>
         (returncode (shell e (curl_cmd port) (ncalls w)) \<noteq> 0 \<longrightarrow>
            fst (check_web_server e port w) = Inr False) \<and>
         trace (snd (check_foundry_container e w)) = trace w @ [Shell podman_cmd] \<and>
         trace (snd (check_web_server e port w)) = trace w @ [Shell (curl_cmd port)] \<and>
         podman_cmd =
           ascii ''podman ps --filter '' @ [39] @ ascii ''name=foundryvtt'' @ [39] @
           ascii '' --filter '' @ [39] @ ascii ''status=running'' @ [39] @ ascii '' -q'' \<and>
         curl_cmd port =
           ascii ''curl --connect-timeout 5 -s http://localhost:'' @ py_str_nat port"
proof -
  have "fst (check_foundry_container e w) =
           Inr (\<exists>c\<in>set (stdout (shell e podman_cmd (ncalls w))). \<not> py_isspace c)"
    using assms(1) by (simp add: check_foundry_container_result strip_empty_iff)
  moreover have "fst (check_web_server e port w) =
           Inr (returncode (shell e (curl_cmd port) (ncalls w)) = 0)"
    using assms(2) by (simp add: check_web_server_result)
  moreover have "trace (snd (check_foundry_container e w)) = trace w @ [Shell podman_cmd]"
    by (simp add: check_foundry_container_result)
  moreover have "trace (snd (check_web_server e port w)) = trace w @ [Shell (curl_cmd port)]"
    by (simp add: check_web_server_result)
  moreover have "podman_cmd =
           ascii ''podman ps --filter '' @ [39] @ ascii ''name=foundryvtt'' @ [39] @
           ascii '' --filter '' @ [39] @ ascii ''status=running'' @ [39] @ ascii '' -q''"
    by (simp add: podman_cmd_def)
  moreover have "curl_cmd port =
           ascii ''curl --connect-timeout 5 -s http://localhost:'' @ py_str_nat port"
    by (simp add: curl_cmd_def)
  ultimately show ?thesis
    by simp
qed

theorem prober_answers_witness:
  "\<not> undecodable (shell bare_host podman_cmd (ncalls w0)) \<and>
   \<not> undecodable (shell bare_host (curl_cmd 29000) (ncalls w0)) \<and>
   stdout (shell bare_host podman_cmd (ncalls w0)) = [] \<and>
   returncode (shell bare_host (curl_cmd 29000) (ncalls w0)) = 127 \<and>
   fst (check_foundry_container bare_host w0) = Inr False \<and>
   fst (check_web_server bare_host 29000 w0) = Inr False \<and>
   trace (snd (check_foundry_container bare_host w0)) = [Shell podman_cmd] \<and>
   trace (snd (check_web_server bare_host 29000 w0)) = [Shell (curl_cmd 29000)] \<and>
   fst (check_foundry_container recovering_host \<lparr>trace = [], ncalls = 2\<rparr>) = Inr True \<and>
   fst (check_web_server recovering_host 29000 \<lparr>trace = [], ncalls = 2\<rparr>) = Inr True \<and>
   curl_cmd 29000 = ascii ''curl --connect-timeout 5 -s http://localhost:29000''"
proof -
  have g1: "\<not> undecodable (shell bare_host podman_cmd (ncalls w0))"
    and g2: "\<not> undecodable (shell bare_host (curl_cmd 29000) (ncalls w0))"
    by (simp_all add: bare_host_def)
  have h1: "stdout (shell bare_host podman_cmd (ncalls w0)) = []"
    by (simp add: bare_host_def)
  have h2: "returncode (shell bare_host (curl_cmd 29000) (ncalls w0)) = 127"
    by (simp add: bare_host_def)
  have start: "trace w0 = []"
    by (simp add: w0_def)
  have g3: "\<not> undecodable (shell recovering_host podman_cmd
              (ncalls \<lparr>trace = [], ncalls = 2\<rparr>))"
    and g4: "\<not> undecodable (shell recovering_host (curl_cmd 29000)
              (ncalls \<lparr>trace = [], ncalls = 2\<rparr>))"
    by (simp_all add: recovering_host_def)
  have up: "stdout (shell recovering_host podman_cmd 2) = ascii ''3f2a9c1d0b7e'' @ [10] \<and>
            returncode (shell recovering_host (curl_cmd 29000) 2) = 0"
    by (simp add: recovering_host_def curl_not_podman)
  have id: "\<exists>c\<in>set (ascii ''3f2a9c1d0b7e'' @ [10]). \<not> py_isspace c"
    by (simp add: py_isspace_def ascii_def)
  have port: "py_str_nat 29000 = ascii ''29000''"
    by (simp add: py_str_nat.simps ascii_def)
  note bare = prober_answers [OF g1 g2]
  note up' = prober_answers [OF g3 g4]
  have b1: "fst (check_foundry_container bare_host w0) = Inr False"
    using bare h1 by simp
  have b2: "fst (check_web_server bare_host 29000 w0) = Inr False"
    using bare h2 by simp
  have b3: "trace (snd (check_foundry_container bare_host w0)) = [Shell podman_cmd]"
    using bare start by simp
  have b4: "trace (snd (check_web_server bare_host 29000 w0)) = [Shell (curl_cmd 29000)]"
    using bare start by simp
  have u1: "fst (check_foundry_container recovering_host \<lparr>trace = [], ncalls = 2\<rparr>) = Inr True"
    using up' up id by simp
  have u2: "fst (check_web_server recovering_host 29000 \<lparr>trace = [], ncalls = 2\<rparr>) = Inr True"
    using up' up by simp
  have c: "curl_cmd 29000 = ascii ''curl --connect-timeout 5 -s http://localhost:29000''"
    using bare port by (simp add: ascii_def)
  show ?thesis
    using g1 g2 h1 h2 b1 b2 b3 b4 u1 u2 c by simp
qed

text \<open>
  C10: \<open>health_check\<close> is a total function, its loop a recursion over the three-element
  range of attempts; whatever the host answers, a run adds at least one and at most
  three probe rounds to the trace.
\<close>

theorem health_check_rounds_bounded:
  "probe_rounds (trace w) < probe_rounds (trace (snd (health_check e w))) \<and>
   probe_rounds (trace (snd (health_check e w))) \<le> probe_rounds (trace w) + 3"
proof -
  have run: "health_check e w = health_loop e [1, 2, 3] w"
    by (simp only: health_check_def Let_def attempts_range)
  show ?thesis
    using health_loop_first_round [of w e 1 "[2, 3]"] health_loop_rounds_upper [of e "[1, 2, 3]" w]
    by (simp add: run del: health_loop.simps)
qed

theorem health_check_rounds_bounded_witness:
  "probe_rounds (trace w0) = 0 \<and>
   0 < probe_rounds (trace (snd (health_check bare_host w0))) \<and>
   probe_rounds (trace (snd (health_check bare_host w0))) \<le> 3"
proof -
  have start: "probe_rounds (trace w0) = 0"
    by (simp add: w0_def probe_rounds_def)
  show ?thesis
    using start health_check_rounds_bounded [of w0 bare_host]
    by simp
qed

section \<open>Log output of a poll cycle\<close>

lemma log_output_send_signal_message:
  "log_output (trace (snd (send_signal_message e m w))) = log_output (trace w)"
  by (simp add: send_signal_message_def subprocess_run_def emit_def log_output_append
      split: option.splits if_splits)

lemma log_output_run:
  "log_output (trace (snd (statement (subprocess_run e cmd w)))) = log_output (trace w)"
  by (simp add: statement_def subprocess_run_def log_output_append split: option.splits)

lemma log_output_handle_command:
  "log_output (trace (snd (handle_command e command sender w))) = log_output (trace w)"
  by (simp add: handle_command_def log_output_send_signal_message log_output_run)

lemma log_output_dispatch_body:
  "log_output (trace (snd (dispatch_body e source body w))) = log_output (trace w)"
  by (simp add: dispatch_body_def log_output_handle_command split: sum.splits option.splits)

lemma log_output_process_message:
  "log_output (trace (snd (process_message e raw w))) =
     log_output (trace w) @
     (if json_loads e raw = None
      then [Log (ascii ''Failed to decode message: '' @ raw)] else [])"
  by (simp add: process_message_def emit_def log_output_append log_output_dispatch_body
      split: option.splits sum.splits)

lemma log_output_process_messages:
  assumes "\<forall>raw\<in>set msgs. \<forall>v. fst (process_message e raw v) = None"
  shows "fst (process_messages e msgs w) = None \<and>
         log_output (trace (snd (process_messages e msgs w))) =
           log_output (trace w) @
           map (\<lambda>raw. Log (ascii ''Failed to decode message: '' @ raw))
             (filter (\<lambda>raw. json_loads e raw = None) msgs)"
  using assms
proof (induction msgs arbitrary: w)
  case Nil
  show ?case by simp
next
  case (Cons raw msgs)
  from Cons.prems have "fst (process_message e raw w) = None"
    by simp
  then obtain w' where step: "process_message e raw w = (None, w')"
    by (cases "process_message e raw w") simp
  from Cons.prems have rest: "\<forall>raw\<in>set msgs. \<forall>v. fst (process_message e raw v) = None"
    by simp
  show ?case
    using Cons.IH [OF rest, of w'] log_output_process_message [of e raw w]
    by (simp add: step)
qed

lemma receiving_environ:
  "environ (receiving out) key =
     (if key = ascii ''AUTHORIZED_SENDERS'' then Some (ascii ''+15550001,+15550002'')
      else if key = ascii ''SIGNAL_CLI_USER'' then Some (ascii ''+15550000'')
      else if key = ascii ''SIGNAL_GROUP_ID'' then Some (ascii ''group1'')
      else None)"
proof -
  have "spawn_error (ascii ''+15550001,+15550002'') = None"
    "spawn_error (ascii ''+15550000'') = None" "spawn_error (ascii ''group1'') = None"
    by (simp_all add: spawn_error_def unencodable_def ascii_def)
  then show ?thesis
    by (simp add: environ_def receiving_def example_environment_def Abs_envstr_inverse)
qed

lemma receiving_allow_list:
  "AUTHORIZED_SENDERS (receiving out) = [ascii ''+15550001'', ascii ''+15550002'']"
  by (simp add: AUTHORIZED_SENDERS_def receiving_environ) (simp add: ascii_def)

lemma shell_receiving_first:
  "shell (receiving out) cmd 0 = \<lparr>returncode = 0, stdout = out, undecodable = False\<rparr>"
  by (simp add: receiving_def)

lemma received:
  "subprocess_run_text (receiving out) (receive_cmd (receiving out)) w0 =
     (Inr \<lparr>returncode = 0, stdout = out, undecodable = False\<rparr>,
      \<lparr>trace = [Shell (receive_cmd (receiving out))], ncalls = 1\<rparr>)"
  by (simp add: subprocess_run_text_def subprocess_run_started [OF spawn_error_receive_cmd]
      w0_def shell_receiving_first)

lemma loads_receiving: "json_loads (receiving out) = example_loads"
  by (simp add: receiving_def)

lemma loads_command_line: "example_loads command_line = Some command_envelope"
  by (simp add: example_loads_def)

lemma loads_receipt_line: "example_loads receipt_line = Some receipt_envelope"
  by (simp add: example_loads_def) (simp add: command_line_def receipt_line_def ascii_def)

lemma loads_bad: "example_loads (ascii ''{bad'') = None"
  by (simp add: example_loads_def command_line_def receipt_line_def ascii_def)

lemma loads_not_json: "example_loads (ascii ''not json'') = None"
  by (simp add: example_loads_def command_line_def receipt_line_def ascii_def)

lemma process_undecodable:
  "json_loads e raw = None \<Longrightarrow>
   process_message e raw w =
     (None, emit (Log (ascii ''Failed to decode message: '' @ raw)) w)"
  by (simp add: process_message_def)

lemma process_command_line:
  "process_message (receiving out) command_line w =
     (None, w\<lparr>trace := trace w @ [Shell (ascii ''uptime'')], ncalls := Suc (ncalls w)\<rparr>)"
proof -
  have sender: "py_in (JString (ascii ''+15550001'')) (AUTHORIZED_SENDERS (receiving out))"
    by (simp add: receiving_allow_list py_in_def)
  have action: "map_of bound_action (ascii ''foundry uptime'') = Some (ascii ''uptime'')"
    by (simp add: bound_action_def ascii_def)
  have prefixed: "py_startswith (ascii ''!foundry uptime'') COMMAND_PREFIX"
    by (simp add: py_startswith_def COMMAND_PREFIX_def ascii_def)
  have nonempty: "py_strip (drop (length COMMAND_PREFIX) (ascii ''!foundry uptime'')) \<noteq> []"
    unfolding strip_uptime by (simp add: ascii_def)
  have "process_message (receiving out) command_line w =
          dispatch_body (receiving out) (JString (ascii ''+15550001''))
            (JString (ascii ''!foundry uptime'')) w"
    by (simp add: process_message_def loads_receiving loads_command_line command_envelope_def
        py_get_def) (simp add: ascii_def)
  also have "\<dots> = handle_command (receiving out) (ascii ''foundry uptime'')
                        (JString (ascii ''+15550001'')) w"
    by (simp only: dispatch_command [OF prefixed nonempty] strip_uptime)
  also have "\<dots> = statement (subprocess_run (receiving out) (ascii ''uptime'') w)"
    by (simp only: handle_command_action [OF sender action])
  also have "\<dots> =
      (None, w\<lparr>trace := trace w @ [Shell (ascii ''uptime'')], ncalls := Suc (ncalls w)\<rparr>)"
    by (simp add: statement_def subprocess_run_started [OF spawn_error_actions [OF action]])
  finally show ?thesis .
qed

lemma process_receipt_line:
  "process_message (receiving out) receipt_line w =
     (Some (AttributeError (ascii ''NoneType'') (ascii ''get'')), w)"
  by (simp add: process_message_def loads_receiving loads_receipt_line receipt_envelope_def
      py_get_def type_name_def) (simp add: ascii_def)

lemma lines_relay: "py_split (py_strip (command_line @ [10])) 10 = [command_line]"
  by (simp add: command_line_def py_strip_def py_isspace_def ascii_def)

lemma lines_receipt:
  "py_split (py_strip (receipt_line @ [10] @ ascii ''{bad'' @ [10])) 10 =
     [receipt_line, ascii ''{bad'']"
  by (simp add: receipt_line_def py_strip_def py_isspace_def ascii_def)

lemma lines_batch:
  "py_split (py_strip
      (ascii ''{bad'' @ [10] @ command_line @ [10] @ ascii ''not json'' @ [10])) 10 =
     [ascii ''{bad'', command_line, ascii ''not json'']"
  by (simp add: command_line_def py_strip_def py_isspace_def ascii_def)

text \<open>
  C6, as stated, fails twice. A received command writes no log line: the listener has
  no such statement. And a line that fails to decode is not logged when an earlier line
  of the batch raised another exception, which ends the batch: here a receipt whose
  \<^verbatim>\<open>dataMessage\<close> is \<^verbatim>\<open>null\<close> comes before the undecodable line.
\<close>

theorem received_command_not_logged:
  "trace (listen_cycle relay_host w0) =
     [Shell (receive_cmd relay_host), Shell (ascii ''uptime''), Sleep 5] \<and>
   json_loads receipt_host (ascii ''{bad'') = None \<and>
   trace (listen_cycle receipt_host w0) =
     [Shell (receive_cmd receipt_host),
      LogExn (ascii ''Error receiving messages: '')
        (AttributeError (ascii ''NoneType'') (ascii ''get'')),
      Sleep 5]"
proof -
  have a: "trace (listen_cycle relay_host w0) =
     [Shell (receive_cmd relay_host), Shell (ascii ''uptime''), Sleep 5]"
    unfolding relay_host_def
    by (simp add: listen_cycle_def received lines_relay process_command_line emit_def)
  have b: "json_loads receipt_host (ascii ''{bad'') = None"
    by (simp add: receipt_host_def loads_receiving loads_bad)
  have c: "trace (listen_cycle receipt_host w0) =
     [Shell (receive_cmd receipt_host),
      LogExn (ascii ''Error receiving messages: '')
        (AttributeError (ascii ''NoneType'') (ascii ''get'')),
      Sleep 5]"
    unfolding receipt_host_def
    by (simp add: listen_cycle_def received lines_receipt [simplified] process_receipt_line
        emit_def)
  show ?thesis
    using a b c by blast
qed

text \<open>
  C6, amended: in a cycle in which the received output decodes as text and no line
  raises an exception other than the decode error of \<^verbatim>\<open>json.loads\<close>, the timestamped lines
  written are exactly one per line that fails to decode as JSON, in order, each holding
  the raw line; a received command writes none.
\<close>

theorem cycle_log_output:
  assumes "\<not> undecodable (shell e (receive_cmd e) (ncalls w))"
    and "msgs =
      (if stdout (shell e (receive_cmd e) (ncalls w)) = [] then []
       else py_split (py_strip (stdout (shell e (receive_cmd e) (ncalls w)))) 10)"
    and "\<forall>raw\<in>set msgs. \<forall>v. fst (process_message e raw v) = None"
  shows "log_output (trace (listen_cycle e w)) =
           log_output (trace w) @
           map (\<lambda>raw. Log (ascii ''Failed to decode message: '' @ raw))
             (filter (\<lambda>raw. json_loads e raw = None) msgs)"
proof -
  let ?w1 = "w\<lparr>trace := trace w @ [Shell (receive_cmd e)], ncalls := Suc (ncalls w)\<rparr>"
  have recv: "subprocess_run_text e (receive_cmd e) w =
      (Inr (shell e (receive_cmd e) (ncalls w)), ?w1)"
    using assms(1)
    by (simp add: subprocess_run_text_def subprocess_run_started [OF spawn_error_receive_cmd])
  note batch = log_output_process_messages [OF assms(3), of ?w1]
  show ?thesis
  proof (cases "stdout (shell e (receive_cmd e) (ncalls w)) = []")
    case True
    then show ?thesis
      using assms(2) by (simp add: listen_cycle_def recv emit_def log_output_append)
  next
    case False
    have "listen_cycle e w = emit (Sleep 5) (snd (process_messages e msgs ?w1))"
      using False assms(2) conjunct1 [OF batch]
      by (simp add: listen_cycle_def recv split_beta)
    then show ?thesis
      using conjunct2 [OF batch]
      by (simp add: emit_def log_output_append)
  qed
qed

theorem cycle_log_output_witness:
  "\<not> undecodable (shell batch_host (receive_cmd batch_host) (ncalls w0)) \<and>
   (\<forall>v. fst (process_message batch_host (ascii ''{bad'') v) = None) \<and>
   (\<forall>v. fst (process_message batch_host command_line v) = None) \<and>
   (\<forall>v. fst (process_message batch_host (ascii ''not json'') v) = None) \<and>
   log_output (trace (listen_cycle batch_host w0)) =
     [Log (ascii ''Failed to decode message: '' @ ascii ''{bad''),
      Log (ascii ''Failed to decode message: '' @ ascii ''not json'')] \<and>
   shells (trace (listen_cycle batch_host w0)) = [receive_cmd batch_host, ascii ''uptime'']"
proof -
  let ?msgs = "[ascii ''{bad'', command_line, ascii ''not json'']"
  have h0: "\<not> undecodable (shell batch_host (receive_cmd batch_host) (ncalls w0))"
    unfolding batch_host_def by (simp add: w0_def shell_receiving_first)
  have h1: "?msgs =
      (if stdout (shell batch_host (receive_cmd batch_host) (ncalls w0)) = [] then []
       else py_split (py_strip
              (stdout (shell batch_host (receive_cmd batch_host) (ncalls w0)))) 10)"
    unfolding batch_host_def
    by (simp add: w0_def shell_receiving_first lines_batch [simplified])
  have h2: "\<forall>raw\<in>set ?msgs. \<forall>v. fst (process_message batch_host raw v) = None"
    unfolding batch_host_def
    by (simp add: process_command_line process_undecodable loads_receiving loads_bad
        loads_not_json)
  have loads: "filter (\<lambda>raw. json_loads batch_host raw = None) ?msgs =
                 [ascii ''{bad'', ascii ''not json'']"
    unfolding batch_host_def
    by (simp add: loads_receiving loads_bad loads_not_json loads_command_line)
  have start: "log_output (trace w0) = []"
    by (simp add: w0_def)
  have logs: "log_output (trace (listen_cycle batch_host w0)) =
     [Log (ascii ''Failed to decode message: '' @ ascii ''{bad''),
      Log (ascii ''Failed to decode message: '' @ ascii ''not json'')]"
    using cycle_log_output [OF h0 h1 h2] by (simp only: loads start list.map append_Nil)
  have cmds: "shells (trace (listen_cycle batch_host w0)) =
                [receive_cmd batch_host, ascii ''uptime'']"
    unfolding batch_host_def
    by (simp add: listen_cycle_def received lines_batch [simplified] process_command_line
        process_undecodable loads_receiving loads_bad loads_not_json emit_def shells_append)
  show ?thesis
    using h0 h2 logs cmds by simp
qed

end
